theory Spec2Isabelle
  imports Main "HOL-Library.Word"
begin

unbundle bit_operations_syntax

section \<open>Common types\<close>

type_synonym u8 = "8 word"
type_synonym u16 = "16 word"
type_synonym u32 = "32 word"
type_synonym u64 = "64 word"

text \<open>An IEEE 802.15.4 extended address: eight bytes, compared for equality only.\<close>

type_synonym ExtAddress = u64

text \<open>The values of \<^verbatim>\<open>Error\<close> that the three components produce or receive.\<close>

datatype Error =
    kErrorNone
  | kErrorSecurity
  | kErrorNoBufs
  | kErrorInvalidState
  | kErrorNotImplemented
  | kErrorAbort
  | kErrorNoAck
  | kErrorChannelAccessFailure
  | kErrorOther

section \<open>Wake-up coordinator table (\<^verbatim>\<open>Mac::WakeupCoordTable\<close>)\<close>

record WakeupCoord =
  mExtAddr :: ExtAddress
  mKeySequence :: u32
  mFrameCounter :: u32
  mLastUpdated :: u32

definition Matches :: "WakeupCoord \<Rightarrow> ExtAddress \<Rightarrow> bool" where
  "Matches c a = (mExtAddr c = a)"

text \<open>
  The fields of a received frame that \<^verbatim>\<open>DetectReplay\<close> reads: the extended source
  address, the four key source bytes of the auxiliary security header and the frame
  counter.
\<close>

record RxFrame =
  rxSrcAddr :: ExtAddress
  rxKeySource :: "u8 \<times> u8 \<times> u8 \<times> u8"
  rxFrameCounter :: u32

text \<open>
  Modelled from the spec: \<^verbatim>\<open>BigEndian::ReadUint32\<close> (\<^verbatim>\<open>common/encoding.hpp\<close>) is
  not among the sources; the key sequence is read big-endian from the key source bytes.
\<close>

fun ReadUint32 :: "u8 \<times> u8 \<times> u8 \<times> u8 \<Rightarrow> u32" where
  "ReadUint32 (b0, b1, b2, b3) =
     push_bit 24 (ucast b0) OR push_bit 16 (ucast b1) OR push_bit 8 (ucast b2) OR ucast b3"

text \<open>
  Modelled from the spec: \<^verbatim>\<open>Array<WakeupCoord, kMaxWakeupCoords>\<close>
  (\<^verbatim>\<open>common/array.hpp\<close>) is not among the sources. The array is a list of at most
  \<open>cap\<close> entries; a pointer to an entry is its index, \<^verbatim>\<open>nullptr\<close> is \<open>None\<close>.
  \<^verbatim>\<open>FindMatching\<close> yields the first entry that \<^verbatim>\<open>Matches\<close>, \<^verbatim>\<open>PushBack\<close> yields a new
  last entry unless the array is full, \<^verbatim>\<open>Remove\<close> takes one entry out. No theorem
  below depends on the order in which \<^verbatim>\<open>Remove\<close> leaves the other entries.
\<close>

fun FindMatching :: "WakeupCoord list \<Rightarrow> ExtAddress \<Rightarrow> nat option" where
  "FindMatching [] a = None"
| "FindMatching (c # cs) a =
     (if Matches c a then Some 0 else map_option Suc (FindMatching cs a))"

definition Remove :: "WakeupCoord list \<Rightarrow> nat \<Rightarrow> WakeupCoord list" where
  "Remove tbl i = take i tbl @ drop (Suc i) tbl"

definition IsFull :: "nat \<Rightarrow> WakeupCoord list \<Rightarrow> bool" where
  "IsFull cap tbl = (cap \<le> length tbl)"

text \<open>\<^verbatim>\<open>GetNowInSecs\<close>: the platform time in microseconds, divided and truncated.\<close>

definition GetNowInSecs :: "u64 \<Rightarrow> u32" where
  "GetNowInSecs platTime = ucast (platTime div 1000000)"

text \<open>
  The loop of \<^verbatim>\<open>Evict\<close>: \<open>i\<close> is the index of the entry looked at, the pair holds
  \<^verbatim>\<open>oldestCoord\<close> and \<^verbatim>\<open>oldestUpdated\<close>.
\<close>

fun EvictScan :: "WakeupCoord list \<Rightarrow> nat \<Rightarrow> nat option \<times> u32 \<Rightarrow> nat option \<times> u32" where
  "EvictScan [] i st = st"
| "EvictScan (c # cs) i st =
     EvictScan cs (Suc i)
       (if mLastUpdated c < snd st then (Some i, mLastUpdated c) else st)"

definition Evict :: "u32 \<Rightarrow> WakeupCoord list \<Rightarrow> u64 \<Rightarrow> WakeupCoord list" where
  "Evict evictAge tbl platTime =
     (let now = GetNowInSecs platTime in
      if \<not> (now > evictAge) then tbl
      else
        (case fst (EvictScan tbl 0 (None, now - evictAge)) of
           None \<Rightarrow> tbl
         | Some i \<Rightarrow> Remove tbl i))"

text \<open>
  \<^verbatim>\<open>DetectReplay\<close>. \<open>cap\<close> is \<^verbatim>\<open>kMaxWakeupCoords\<close> and \<open>evictAge\<close> is
  \<^verbatim>\<open>kWakeupCoordinatorEvictAge\<close>, both configuration constants; \<open>platTime\<close> is what
  \<^verbatim>\<open>otPlatTimeGet\<close> returns during the call. The result is the error and the table
  after the call.
\<close>

definition DetectReplay ::
  "nat \<Rightarrow> u32 \<Rightarrow> WakeupCoord list \<Rightarrow> RxFrame \<Rightarrow> u64 \<Rightarrow> Error \<times> WakeupCoord list" where
  "DetectReplay cap evictAge tbl aFrame platTime =
     (let frameSrcAddr = rxSrcAddr aFrame;
          frameKeySequence = ReadUint32 (rxKeySource aFrame);
          frameCounter = rxFrameCounter aFrame;
          stored = \<lparr>mExtAddr = frameSrcAddr, mKeySequence = frameKeySequence,
                    mFrameCounter = frameCounter, mLastUpdated = GetNowInSecs platTime\<rparr>
      in case FindMatching tbl frameSrcAddr of
           Some i \<Rightarrow>
             (let coord = tbl ! i in
              if \<not> (frameKeySequence \<ge> mKeySequence coord) then (kErrorSecurity, tbl)
              else if frameKeySequence = mKeySequence coord
                      \<and> \<not> (frameCounter > mFrameCounter coord) then (kErrorSecurity, tbl)
              else (kErrorNone, tbl[i := stored]))
         | None \<Rightarrow>
             (let tbl' = Evict evictAge tbl platTime in
              if IsFull cap tbl' then (kErrorNoBufs, tbl')
              else (kErrorNone, tbl' @ [stored])))"

text \<open>
  A run of \<^verbatim>\<open>DetectReplay\<close> over received frames, each with the platform time of its
  reception. The result is the table after the last frame and the (key sequence, frame
  counter) pairs of the accepted frames (those answered \<^verbatim>\<open>kErrorNone\<close>), in order.
  \<open>storedPair\<close> reads the pair that the table holds for an address.
\<close>

definition frameKeyPair :: "RxFrame \<Rightarrow> u32 \<times> u32" where
  "frameKeyPair f = (ReadUint32 (rxKeySource f), rxFrameCounter f)"

definition storedPair :: "WakeupCoord list \<Rightarrow> ExtAddress \<Rightarrow> (u32 \<times> u32) option" where
  "storedPair tbl a =
     map_option (\<lambda>i. (mKeySequence (tbl ! i), mFrameCounter (tbl ! i))) (FindMatching tbl a)"

fun pairLess :: "u32 \<times> u32 \<Rightarrow> u32 \<times> u32 \<Rightarrow> bool" where
  "pairLess (k1, c1) (k2, c2) = (k1 < k2 \<or> (k1 = k2 \<and> c1 < c2))"

fun DetectReplayAll ::
  "nat \<Rightarrow> u32 \<Rightarrow> WakeupCoord list \<Rightarrow> (RxFrame \<times> u64) list
     \<Rightarrow> WakeupCoord list \<times> (u32 \<times> u32) list" where
  "DetectReplayAll cap evictAge tbl [] = (tbl, [])"
| "DetectReplayAll cap evictAge tbl ((f, t) # fs) =
     (case DetectReplay cap evictAge tbl f t of
        (e, tbl') \<Rightarrow>
          (case DetectReplayAll cap evictAge tbl' fs of
             (tbl'', acc) \<Rightarrow>
               (tbl'', if e = kErrorNone then frameKeyPair f # acc else acc)))"

section \<open>Wake-up transmit scheduler (\<^verbatim>\<open>WakeupTxScheduler\<close>)\<close>

text \<open>
  Modelled from the spec: \<^verbatim>\<open>TimeMicro\<close> (\<^verbatim>\<open>common/time.hpp\<close>) and \<^verbatim>\<open>Max\<close>
  (\<^verbatim>\<open>common/num_utils.hpp\<close>) are not among the sources. A time is a 32-bit count of
  microseconds that wraps; adding a duration wraps, the difference of two times is a
  32-bit duration, and times are compared modulo \<open>2 ^ 32\<close>: \<open>a\<close> is before \<open>b\<close> when
  \<open>a - b\<close> has its top bit set. \<^verbatim>\<open>Max\<close> yields its second argument when the first is
  before it.
\<close>

type_synonym TimeMicro = u32

definition TimeBefore :: "TimeMicro \<Rightarrow> TimeMicro \<Rightarrow> bool" where
  "TimeBefore a b = (((a - b) AND push_bit 31 1) \<noteq> 0)"

definition TimeMax :: "TimeMicro \<Rightarrow> TimeMicro \<Rightarrow> TimeMicro" where
  "TimeMax a b = (if TimeBefore a b then b else a)"

definition kWakeupFrameLength :: u32 where
  "kWakeupFrameLength = 54"

definition kParentRequestLength :: u32 where
  "kParentRequestLength = 78"

text \<open>
  \<^verbatim>\<open>kUsPerTenSymbols\<close>: the class \<^verbatim>\<open>EnhCslPeerInfo\<close> gives the unit of a CSL period
  as 10 symbols, 160 microseconds.
\<close>

definition kUsPerTenSymbols :: u32 where
  "kUsPerTenSymbols = 160"

text \<open>
  Constants that the sources use and do not define: \<^verbatim>\<open>kOctetDuration\<close> and the two
  connection retry constants of the configuration. They are parameters of the model.
\<close>

record WakeupConfig =
  kOctetDuration :: u32
  kConnectionRetryInterval :: u8
  kConnectionRetryCount :: u8

text \<open>
  The scheduler. \<open>mTimer\<close> is \<open>Some t\<close> once \<^verbatim>\<open>FireAt\<close> has set the timer to fire at
  \<open>t\<close> (when it fires, the MAC asks for a wake-up frame), and \<open>None\<close> once it is
  stopped.
\<close>

record WakeupTxScheduler =
  mTarget :: ExtAddress
  mTxTimeUs :: TimeMicro
  mTxEndTimeUs :: TimeMicro
  mTxRequestAheadTimeUs :: u16
  mIntervalUs :: u16
  mTimer :: "TimeMicro option"
  mSequenceOngoing :: bool

text \<open>
  \<^verbatim>\<open>ScheduleNext\<close>; \<open>nowUs\<close> is what \<^verbatim>\<open>TimerMicro::GetNow\<close> returns, read only when
  the frame is not the first.
\<close>

definition ScheduleNext :: "bool \<Rightarrow> TimeMicro \<Rightarrow> WakeupTxScheduler \<Rightarrow> WakeupTxScheduler" where
  "ScheduleNext aIsFirstFrame nowUs s =
     (let s1 = (if \<not> aIsFirstFrame
                then s\<lparr>mTxTimeUs := TimeMax (mTxTimeUs s + ucast (mIntervalUs s))
                                             (nowUs + ucast (mTxRequestAheadTimeUs s))\<rparr>
                else s)
      in if \<not> TimeBefore (mTxTimeUs s1) (mTxEndTimeUs s1)
         then s1\<lparr>mSequenceOngoing := False\<rparr>
         else s1\<lparr>mTimer := Some (mTxTimeUs s1 - ucast (mTxRequestAheadTimeUs s1))\<rparr>)"

definition WakeUp ::
  "ExtAddress \<Rightarrow> u16 \<Rightarrow> u16 \<Rightarrow> TimeMicro \<Rightarrow> WakeupTxScheduler \<Rightarrow> Error \<times> WakeupTxScheduler" where
  "WakeUp aTarget aIntervalUs aDurationMs nowUs s =
     (if mSequenceOngoing s \<noteq> False then (kErrorInvalidState, s)
      else
        (let txTime = nowUs + ucast (mTxRequestAheadTimeUs s);
             s1 = s\<lparr>mTarget := aTarget,
                    mTxTimeUs := txTime,
                    mTxEndTimeUs := txTime + ucast aDurationMs * 1000 + ucast aIntervalUs,
                    mIntervalUs := aIntervalUs,
                    mSequenceOngoing := True\<rparr>
         in (kErrorNone, ScheduleNext True nowUs s1)))"

definition Stop :: "WakeupTxScheduler \<Rightarrow> WakeupTxScheduler" where
  "Stop s = s\<lparr>mSequenceOngoing := False, mTimer := None\<rparr>"

text \<open>The fields of the transmit frame that \<^verbatim>\<open>PrepareWakeupFrame\<close> writes.\<close>

record WakeupFrame =
  wfPanId :: u16
  wfDst :: ExtAddress
  wfSrc :: ExtAddress
  wfTxDelayBaseTime :: u32
  wfTxDelay :: u32
  wfCsmaCaEnabled :: bool
  wfMaxCsmaBackoffs :: u8
  wfMaxFrameRetries :: u8
  wfRendezvousTime :: u32
  wfRetryInterval :: u8
  wfRetryCount :: u8

text \<open>
  What one call of \<^verbatim>\<open>PrepareWakeupFrame\<close> reads from outside the scheduler: the two
  readings of \<^verbatim>\<open>TimerMicro::GetNow\<close> (the second one inside \<^verbatim>\<open>ScheduleNext\<close>), the
  radio time, the PAN identifier and extended address of the MAC, and the result of
  \<^verbatim>\<open>GenerateWakeupFrame\<close>.
\<close>

record WakeupInput =
  inNowUs :: TimeMicro
  inNowUsNext :: TimeMicro
  inRadioNow :: u64
  inPanId :: u16
  inExtAddress :: ExtAddress
  inGenerateResult :: Error

text \<open>
  \<^verbatim>\<open>PrepareWakeupFrame\<close> (with the IEEE 802.15.4 radio link enabled). \<open>wfRendezvousTime\<close>
  is the 32-bit value that the function passes to \<^verbatim>\<open>SetRendezvousTime\<close>; the
  declaration of the information element is not among the sources, and its field holds
  this value unchanged wherever the value is below \<open>2 ^ 16\<close>.
\<close>

definition PrepareWakeupFrame ::
  "WakeupConfig \<Rightarrow> WakeupInput \<Rightarrow> WakeupTxScheduler \<Rightarrow> WakeupFrame option \<times> WakeupTxScheduler" where
  "PrepareWakeupFrame cfg inp s =
     (if \<not> (mSequenceOngoing s = True) then (None, s)
      else
        (let radioTxUs = (ucast (inRadioNow inp) :: u32) + (mTxTimeUs s - inNowUs inp) in
         if inGenerateResult inp \<noteq> kErrorNone then (None, s)
         else
           (let rendezvousTimeUs =
                  (ucast (mIntervalUs s)
                     - (kWakeupFrameLength + kParentRequestLength) * kOctetDuration cfg) div 2;
                rendezvousTimeUs' = rendezvousTimeUs + ucast (mIntervalUs s);
                frame = \<lparr>wfPanId = inPanId inp,
                         wfDst = mTarget s,
                         wfSrc = inExtAddress inp,
                         wfTxDelayBaseTime = 0,
                         wfTxDelay = radioTxUs,
                         wfCsmaCaEnabled = False,
                         wfMaxCsmaBackoffs = 0,
                         wfMaxFrameRetries = 0,
                         wfRendezvousTime = rendezvousTimeUs' div kUsPerTenSymbols,
                         wfRetryInterval = kConnectionRetryInterval cfg,
                         wfRetryCount = kConnectionRetryCount cfg\<rparr>
            in (Some frame, ScheduleNext False (inNowUsNext inp) s))))"

text \<open>
  A burst: the MAC asks for one wake-up frame after the other. The result is the list
  of what the calls returned and the scheduler after the last call.
\<close>

fun PrepareWakeupFrames ::
  "WakeupConfig \<Rightarrow> WakeupTxScheduler \<Rightarrow> WakeupInput list
     \<Rightarrow> WakeupFrame option list \<times> WakeupTxScheduler" where
  "PrepareWakeupFrames cfg s [] = ([], s)"
| "PrepareWakeupFrames cfg s (inp # inps) =
     (case PrepareWakeupFrame cfg inp s of
        (fr, s') \<Rightarrow>
          (case PrepareWakeupFrames cfg s' inps of
             (frs, s'') \<Rightarrow> (fr # frs, s'')))"

text \<open>
  The number of wake-up frames of a burst as the specification counts them, and as the
  comparison of \<^verbatim>\<open>ScheduleNext\<close> counts them: the slots \<open>k * interval\<close> below
  \<open>duration * 1000 + interval\<close>.
\<close>

definition burstFramesSpec :: "u16 \<Rightarrow> u16 \<Rightarrow> nat" where
  "burstFramesSpec aIntervalUs aDurationMs =
     (unat aDurationMs * 1000 + unat aIntervalUs) div unat aIntervalUs"

definition burstFrames :: "u16 \<Rightarrow> u16 \<Rightarrow> nat" where
  "burstFrames aIntervalUs aDurationMs =
     (unat aDurationMs * 1000 + unat aIntervalUs + (unat aIntervalUs - 1)) div unat aIntervalUs"

text \<open>
  The rendezvous time as the specification computes it, in exact integer arithmetic,
  with the duration of a symbol as the factor of the two frame lengths.
\<close>

definition rendezvousTimeSpec :: "int \<Rightarrow> int \<Rightarrow> int" where
  "rendezvousTimeSpec symbolDuration intervalUs =
     (intervalUs + (intervalUs - (54 + 78) * symbolDuration) div 2) div 160"

text \<open>
  The scheduler after \<^verbatim>\<open>WakeUp\<close> at time \<open>nowUs\<close> and \<open>k\<close> wake-up frames, when no
  slot had to be moved forward.
\<close>

definition burstState ::
  "ExtAddress \<Rightarrow> u16 \<Rightarrow> u16 \<Rightarrow> u16 \<Rightarrow> TimeMicro \<Rightarrow> nat \<Rightarrow> WakeupTxScheduler" where
  "burstState aTarget aIntervalUs aDurationMs ahead nowUs k =
     \<lparr>mTarget = aTarget,
      mTxTimeUs = nowUs + ucast ahead + of_nat (k * unat aIntervalUs),
      mTxEndTimeUs = nowUs + ucast ahead + ucast aDurationMs * 1000 + ucast aIntervalUs,
      mTxRequestAheadTimeUs = ahead,
      mIntervalUs = aIntervalUs,
      mTimer = Some (nowUs
                 + of_nat (min k (burstFrames aIntervalUs aDurationMs - 1) * unat aIntervalUs)),
      mSequenceOngoing = (k < burstFrames aIntervalUs aDurationMs)\<rparr>"

section \<open>Enhanced CSL sender (\<^verbatim>\<open>EnhCslSender\<close>)\<close>

text \<open>
  What stops a call instead of returning: a null pointer is dereferenced, the divisor of
  a modulo is zero, an \<^verbatim>\<open>OT_ASSERT\<close> fails, or the loop of
  \<^verbatim>\<open>GetNextCslTransmissionDelay\<close> does not end. A call yields \<open>Inl\<close> of the fault or
  \<open>Inr\<close> of its result.
\<close>

datatype Fault =
    NullPointerDereference
  | DivisionByZero
  | AssertionFailure
  | LoopDoesNotTerminate

datatype MessageType = kTypeIp6 | kTypeSupervision | kTypeOther

datatype MessageSubType = kSubTypeNone | kSubTypeMleChildIdRequest | kSubTypeOther

text \<open>
  A message of the message pool, with what the sender reads of it. \<open>msgId\<close> tells the
  messages apart: a \<^verbatim>\<open>Message *\<close> is a \<open>Message option\<close>, \<^verbatim>\<open>nullptr\<close> is \<open>None\<close>.
\<close>

record Message =
  msgId :: nat
  msgType :: MessageType
  msgSubType :: MessageSubType
  msgLinkSecurityEnabled :: bool
  msgDirectTransmission :: bool
  msgLength :: u16
  msgOffset :: u16

text \<open>The fields of a transmit frame that the sender reads or writes.\<close>

record TxFrame =
  txIsEmpty :: bool
  txSequence :: u8
  txSecurityEnabled :: bool
  txIsHeaderUpdated :: bool
  txIsCslIePresent :: bool
  txFrameCounter :: u32
  txKeyId :: u8
  txIsARetransmission :: bool
  txTxDelay :: u32
  txTxDelayBaseTime :: u32
  txCsmaCaEnabled :: bool

text \<open>
  \<^verbatim>\<open>EnhCslPeerInfo\<close>, together with the extended address and the record of
  transmission results of the \<^verbatim>\<open>Neighbor\<close> that inherits from it. \<open>mCslTxAttempts\<close> is
  a bit-field of six bits.
\<close>

record Neighbor =
  mCslTxAttempts :: "6 word"
  mCslSynchronized :: bool
  mCslPrevSnValid :: bool
  mCslMaxTxAttempts :: u8
  mCslPeriod :: u16
  mCslPhase :: u16
  mCslLastHeard :: u32
  mLastRxTimestamp :: u64
  mCslPrevSn :: u8
  mIndirectDsn :: u8
  mIndirectKeyId :: u8
  mIndirectFrameCounter :: u32
  mIndirectMessage :: "Message option"
  mQueuedMessageCount :: u16
  mIndirectFragmentOffset :: u16
  nbExtAddress :: ExtAddress
  nbMessageTxStatus :: "bool list"

definition IsEnhCslSynchronized :: "Neighbor \<Rightarrow> bool" where
  "IsEnhCslSynchronized nb = (mCslSynchronized nb \<and> mCslPeriod nb > 0)"

definition GetEnhCslMaxTxAttempts :: "u8 \<Rightarrow> Neighbor \<Rightarrow> u8" where
  "GetEnhCslMaxTxAttempts kMaxEnhCslTriggeredTxAttempts nb =
     (if mCslMaxTxAttempts nb \<noteq> 0 then mCslMaxTxAttempts nb
      else kMaxEnhCslTriggeredTxAttempts)"

definition GetEnhCslTxAttempts :: "Neighbor \<Rightarrow> u8" where
  "GetEnhCslTxAttempts nb = ucast (mCslTxAttempts nb)"

text \<open>The addresses that \<^verbatim>\<open>PrepareDataFrame\<close> hands to the mesh forwarder.\<close>

record MacAddrs =
  mSource :: ExtAddress
  mDestination :: ExtAddress

text \<open>
  The configuration constants and the collaborators of the sender, which the sources
  use and do not define, as parameters: the two \<^verbatim>\<open>OPENTHREAD_CONFIG\<close> values, whether
  \<^verbatim>\<open>OPENTHREAD_CONFIG_MAC_CSL_RECEIVER_ENABLE\<close> is set, and the mesh forwarder's address
  derivation, fragment builder and \<^verbatim>\<open>RemoveMessageIfNoPendingTx\<close> (its effect on the
  send queue).
\<close>

record CslConfig =
  kMaxEnhCslTriggeredTxAttempts :: u8
  kCslRequestAheadUs :: u32
  kCslReceiverEnable :: bool
  GetMacSourceAddress :: "Message \<Rightarrow> ExtAddress"
  IsLinkLocalDestination :: "Message \<Rightarrow> bool"
  GetMacDestinationAddress :: "Message \<Rightarrow> ExtAddress"
  PrepareDataFrameWithNoMeshHeader :: "TxFrame \<Rightarrow> Message \<Rightarrow> MacAddrs \<Rightarrow> u16 \<times> TxFrame"
  RemoveMessageIfNoPendingTx :: "Message \<Rightarrow> Message list \<Rightarrow> Message list"

text \<open>
  What a call reads from outside: whether the parent of MLE is in a valid state,
  whether a CSL central is present, and the radio time.
\<close>

record CslInput =
  inParentIsStateValid :: bool
  inIsCslCentralPresent :: bool
  inCslRadioNow :: u64

text \<open>
  The sender and what it acts on. A \<^verbatim>\<open>Neighbor *\<close> is the address of a neighbor in
  \<open>neighbors\<close>, \<^verbatim>\<open>nullptr\<close> is \<open>None\<close>; the parent and the parent candidate of MLE live
  at \<open>kParent\<close> and \<open>kParentCandidate\<close>. \<open>mMessageNextOffset\<close> is the field of
  \<^verbatim>\<open>mFrameContext\<close>. The last four fields record the calls to the collaborators:
  the delays given to \<^verbatim>\<open>RequestEnhCslFrameTransmission\<close>, the messages given to
  \<^verbatim>\<open>RemoveMessageIfNoPendingTx\<close>, and the numbers of calls of \<^verbatim>\<open>BecomeDetached\<close> and
  \<^verbatim>\<open>RequestShorterChildIdRequest\<close>.
\<close>

record EnhCslSender =
  mCslTxNeigh :: "nat option"
  mCslTxMessage :: "Message option"
  mCslFrameRequestAheadUs :: u32
  mMessageNextOffset :: u16
  neighbors :: "nat \<Rightarrow> Neighbor"
  mSendQueue :: "Message list"
  mTxSuccess :: u32
  mTxFailure :: u32
  cslTxRequests :: "u32 list"
  removeRequests :: "Message list"
  detachRequests :: nat
  shorterChildIdRequests :: nat

definition kParent :: nat where
  "kParent = 0"

definition kParentCandidate :: nat where
  "kParentCandidate = 1"

definition kFramePreparationGuardInterval :: u32 where
  "kFramePreparationGuardInterval = 1500"

definition GetParent :: "CslInput \<Rightarrow> nat option" where
  "GetParent inp =
     (if inParentIsStateValid inp then Some kParent
      else if inIsCslCentralPresent inp then Some kParentCandidate
      else None)"

text \<open>\<^verbatim>\<open>InitFrameRequestAhead\<close>, from the bus speed that the radio reports.\<close>

definition InitFrameRequestAhead :: "CslConfig \<Rightarrow> u32 \<Rightarrow> u32" where
  "InitFrameRequestAhead cfg busSpeedHz =
     (let busTxTimeUs =
            (if busSpeedHz = 0 then 0
             else (150 * 8 * 1000000 + busSpeedHz - 1) div busSpeedHz)
      in kCslRequestAheadUs cfg + busTxTimeUs)"

text \<open>
  The constructor: it sets \<^verbatim>\<open>mCslTxNeigh\<close> to \<^verbatim>\<open>nullptr\<close>, value-initialises
  \<^verbatim>\<open>mFrameContext\<close> and calls \<^verbatim>\<open>InitFrameRequestAhead\<close>. It does not initialise
  \<^verbatim>\<open>mCslTxMessage\<close>, whose value \<open>uninit\<close> is whatever the storage holds. \<open>w\<close> gives
  the neighbors, the send queue and the counters at that moment.
\<close>

definition EnhCslSenderInit ::
  "CslConfig \<Rightarrow> u32 \<Rightarrow> Message option \<Rightarrow> EnhCslSender \<Rightarrow> EnhCslSender" where
  "EnhCslSenderInit cfg busSpeedHz uninit w =
     w\<lparr>mCslTxNeigh := None,
       mCslTxMessage := uninit,
       mCslFrameRequestAheadUs := InitFrameRequestAhead cfg busSpeedHz,
       mMessageNextOffset := 0\<rparr>"

text \<open>
  The loop of \<^verbatim>\<open>GetNextCslTransmissionDelay\<close> on 64-bit unsigned integers; \<open>None\<close>
  when it does not end.
\<close>

partial_function (option) NextTxWindowLoop :: "u64 \<Rightarrow> u64 \<Rightarrow> u64 \<Rightarrow> u64 option" where
  "NextTxWindowLoop nextTxWindow limit periodInUs =
     (if nextTxWindow < limit then NextTxWindowLoop (nextTxWindow + periodInUs) limit periodInUs
      else Some nextTxWindow)"

declare NextTxWindowLoop.simps [code]

text \<open>
  \<^verbatim>\<open>GetNextCslTransmissionDelay\<close> in two steps: \<open>CslNextTxWindow\<close> is the value of
  \<^verbatim>\<open>nextTxWindow\<close> after the loop, the transmit time chosen; the function returns the
  delay and \<^verbatim>\<open>aDelayFromLastRx\<close>.
\<close>

definition CslNextTxWindow :: "Neighbor \<Rightarrow> u64 \<Rightarrow> u32 \<Rightarrow> Fault + u64" where
  "CslNextTxWindow aNeighbor radioNow aAheadUs =
     (let periodInUs = (ucast (mCslPeriod aNeighbor) * kUsPerTenSymbols :: u32);
          firstTxWindow = mLastRxTimestamp aNeighbor
                            + ucast (ucast (mCslPhase aNeighbor) * kUsPerTenSymbols :: u32)
      in if periodInUs = 0 then Inl DivisionByZero
         else
           (case NextTxWindowLoop
                   (radioNow - (radioNow mod ucast periodInUs)
                      + (firstTxWindow mod ucast periodInUs))
                   (radioNow + ucast aAheadUs) (ucast periodInUs) of
              None \<Rightarrow> Inl LoopDoesNotTerminate
            | Some nextTxWindow \<Rightarrow> Inr nextTxWindow))"

definition GetNextCslTransmissionDelay ::
  "Neighbor \<Rightarrow> u64 \<Rightarrow> u32 \<Rightarrow> Fault + u32 \<times> u32" where
  "GetNextCslTransmissionDelay aNeighbor radioNow aAheadUs =
     (case CslNextTxWindow aNeighbor radioNow aAheadUs of
        Inl fault \<Rightarrow> Inl fault
      | Inr nextTxWindow \<Rightarrow>
          Inr (ucast (nextTxWindow - radioNow - ucast aAheadUs),
               ucast (nextTxWindow - mLastRxTimestamp aNeighbor)))"

text \<open>The first message of the send queue that is not a direct transmission.\<close>

fun FirstIndirect :: "Message list \<Rightarrow> Message option" where
  "FirstIndirect [] = None"
| "FirstIndirect (m # ms) = (if \<not> msgDirectTransmission m then Some m else FirstIndirect ms)"

definition RescheduleCslTx :: "CslInput \<Rightarrow> EnhCslSender \<Rightarrow> Fault + EnhCslSender" where
  "RescheduleCslTx inp s =
     (let s1 = s\<lparr>mCslTxNeigh := GetParent inp\<rparr> in
      case mCslTxNeigh s1 of
        None \<Rightarrow> Inl NullPointerDereference
      | Some n \<Rightarrow>
          (let nb = neighbors s1 n in
           if \<not> (mQueuedMessageCount nb > 0) then Inr s1
           else
             (let nb1 = (if mIndirectMessage nb = None
                         then (case FirstIndirect (mSendQueue s1) of
                                 None \<Rightarrow> nb
                               | Some m \<Rightarrow> nb\<lparr>mIndirectMessage := Some m,
                                               mIndirectFragmentOffset := 0\<rparr>)
                         else nb)
              in if mIndirectMessage nb1 = None
                 then Inr (s1\<lparr>neighbors := (neighbors s1)(n := nb1\<lparr>mQueuedMessageCount := 0\<rparr>)\<rparr>)
                 else
                   (case GetNextCslTransmissionDelay nb1 (inCslRadioNow inp)
                           (mCslFrameRequestAheadUs s1) of
                      Inl fault \<Rightarrow> Inl fault
                    | Inr (delay, cslTxDelay) \<Rightarrow>
                        Inr (s1\<lparr>neighbors := (neighbors s1)(n := nb1),
                                cslTxRequests := cslTxRequests s1 @ [delay div 1000]\<rparr>)))))"

definition AddMessageForCslPeer ::
  "CslInput \<Rightarrow> Message \<Rightarrow> nat \<Rightarrow> EnhCslSender \<Rightarrow> Fault + EnhCslSender" where
  "AddMessageForCslPeer inp aMessage aNeighbor s =
     (case mCslTxNeigh s of
        None \<Rightarrow> Inl NullPointerDereference
      | Some n \<Rightarrow>
          (let nb = neighbors s aNeighbor;
               nb1 = (if mIndirectMessage (neighbors s n) = None
                      then nb\<lparr>mIndirectMessage := Some aMessage, mIndirectFragmentOffset := 0\<rparr>
                      else nb);
               nb2 = nb1\<lparr>mQueuedMessageCount := mQueuedMessageCount nb1 + 1\<rparr>
           in RescheduleCslTx inp (s\<lparr>neighbors := (neighbors s)(aNeighbor := nb2)\<rparr>)))"

definition Update :: "CslInput \<Rightarrow> EnhCslSender \<Rightarrow> Fault + EnhCslSender" where
  "Update inp s =
     (if mCslTxMessage s = None then RescheduleCslTx inp s
      else
        (case mCslTxNeigh s of
           None \<Rightarrow> Inr s
         | Some n \<Rightarrow>
             if mIndirectMessage (neighbors s n) \<noteq> mCslTxMessage s
             then Inr (s\<lparr>mCslTxNeigh := None, mMessageNextOffset := 0\<rparr>)
             else Inr s))"

definition ClearAllMessagesForCslPeer ::
  "CslConfig \<Rightarrow> CslInput \<Rightarrow> nat \<Rightarrow> EnhCslSender \<Rightarrow> Fault + EnhCslSender" where
  "ClearAllMessagesForCslPeer cfg inp aNeighbor s =
     (if \<not> (mQueuedMessageCount (neighbors s aNeighbor) > 0) then Inr s
      else
        (let s1 = s\<lparr>mSendQueue := fold (RemoveMessageIfNoPendingTx cfg) (mSendQueue s) (mSendQueue s),
                     removeRequests := removeRequests s @ mSendQueue s\<rparr>;
             nb = neighbors s1 aNeighbor;
             nb1 = nb\<lparr>mIndirectMessage := None, mQueuedMessageCount := 0, mCslTxAttempts := 0\<rparr>
         in Update inp (s1\<lparr>neighbors := (neighbors s1)(aNeighbor := nb1)\<rparr>)))"

text \<open>
  \<^verbatim>\<open>PrepareDataFrame\<close>: the frame is built from the fragment offset of the neighbor,
  and the offset of the message is put back. The result is the next offset and the
  frame.
\<close>

definition PrepareDataFrame ::
  "CslConfig \<Rightarrow> TxFrame \<Rightarrow> Neighbor \<Rightarrow> Message \<Rightarrow> u16 \<times> TxFrame" where
  "PrepareDataFrame cfg aFrame aNeighbor aMessage =
     (let macAddrs = \<lparr>mSource = GetMacSourceAddress cfg aMessage,
                      mDestination = (if IsLinkLocalDestination cfg aMessage
                                      then GetMacDestinationAddress cfg aMessage
                                      else nbExtAddress aNeighbor)\<rparr>
      in PrepareDataFrameWithNoMeshHeader cfg aFrame
           (aMessage\<lparr>msgOffset := mIndirectFragmentOffset aNeighbor\<rparr>) macAddrs)"

text \<open>
  \<^verbatim>\<open>PrepareFrameForNeighbor\<close>: the error, the frame and \<^verbatim>\<open>mMessageNextOffset\<close> of the
  context after the call.
\<close>

definition PrepareFrameForNeighbor ::
  "CslConfig \<Rightarrow> TxFrame \<Rightarrow> u16 \<Rightarrow> Neighbor \<Rightarrow> Error \<times> TxFrame \<times> u16" where
  "PrepareFrameForNeighbor cfg aFrame aNextOffset aNeighbor =
     (case mIndirectMessage aNeighbor of
        None \<Rightarrow> (kErrorInvalidState, aFrame, aNextOffset)
      | Some message \<Rightarrow>
          (case msgType message of
             kTypeIp6 \<Rightarrow>
               (case PrepareDataFrame cfg aFrame aNeighbor message of
                  (nextOffset, frame) \<Rightarrow>
                    if msgSubType message = kSubTypeMleChildIdRequest
                       \<and> msgLinkSecurityEnabled message
                    then (kErrorAbort, frame, msgLength message)
                    else (kErrorNone, frame, nextOffset))
           | _ \<Rightarrow> (kErrorNotImplemented, aFrame, aNextOffset)))"

text \<open>
  \<^verbatim>\<open>HandleFrameRequest\<close> (with the IEEE 802.15.4 radio link enabled). \<open>aTxFrame\<close> is
  the frame of \<^verbatim>\<open>aTxFrames\<close>; the result is the frame returned, \<open>None\<close> for
  \<^verbatim>\<open>nullptr\<close>, and the sender after the call.
\<close>

definition HandleFrameRequest ::
  "CslConfig \<Rightarrow> CslInput \<Rightarrow> TxFrame \<Rightarrow> EnhCslSender
     \<Rightarrow> Fault + TxFrame option \<times> EnhCslSender" where
  "HandleFrameRequest cfg inp aTxFrame s =
     (case mCslTxNeigh s of
        None \<Rightarrow> Inr (None, s)
      | Some n \<Rightarrow>
          (let nb = neighbors s n in
           if \<not> IsEnhCslSynchronized nb then Inr (None, s)
           else
             (case PrepareFrameForNeighbor cfg aTxFrame (mMessageNextOffset s) nb of
                (error, frame, nextOffset) \<Rightarrow>
                  (let s1 = s\<lparr>mMessageNextOffset := nextOffset\<rparr> in
                   if \<not> (error = kErrorNone) then Inr (None, s1)
                   else
                     (let s2 = s1\<lparr>mCslTxMessage := mIndirectMessage nb\<rparr> in
                      if mCslTxMessage s2 = None then Inr (None, s2)
                      else
                        (let isCsl = (if kCslReceiverEnable cfg then txIsCslIePresent frame
                                      else False);
                             frame1 =
                               (if GetEnhCslTxAttempts nb > 0
                                then
                                  (let f = frame\<lparr>txIsARetransmission := True,
                                                 txSequence := mIndirectDsn nb\<rparr>
                                   in if txSecurityEnabled f \<and> \<not> isCsl
                                      then f\<lparr>txFrameCounter := mIndirectFrameCounter nb,
                                             txKeyId := mIndirectKeyId nb\<rparr>
                                      else f)
                                else frame\<lparr>txIsARetransmission := False\<rparr>)
                         in case GetNextCslTransmissionDelay nb (inCslRadioNow inp) 0 of
                              Inl fault \<Rightarrow> Inl fault
                            | Inr (delay, txDelay) \<Rightarrow>
                                if \<not> (delay \<le> mCslFrameRequestAheadUs s2
                                                 + kFramePreparationGuardInterval)
                                then Inr (None, s2)
                                else Inr (Some (frame1\<lparr>txTxDelay := txDelay,
                                                   txTxDelayBaseTime := ucast (mLastRxTimestamp nb),
                                                   txCsmaCaEnabled := False\<rparr>), s2)))))))"

definition HandleSentFrameToNeighbor ::
  "CslConfig \<Rightarrow> CslInput \<Rightarrow> TxFrame \<Rightarrow> Error \<Rightarrow> nat \<Rightarrow> EnhCslSender
     \<Rightarrow> Fault + EnhCslSender" where
  "HandleSentFrameToNeighbor cfg inp aFrame aError aNeighbor s =
     (let nb = neighbors s aNeighbor;
          nextOffset = mMessageNextOffset s
      in case mIndirectMessage nb of
           None \<Rightarrow> RescheduleCslTx inp s
         | Some message \<Rightarrow>
             if nextOffset < msgLength message
             then RescheduleCslTx inp
                    (s\<lparr>neighbors := (neighbors s)
                         (aNeighbor := nb\<lparr>mIndirectFragmentOffset := nextOffset\<rparr>)\<rparr>)
             else if \<not> (mQueuedMessageCount nb > 0) then Inl AssertionFailure
             else
               (let nb1 = nb\<lparr>mIndirectMessage := None,
                             nbMessageTxStatus := nbMessageTxStatus nb @ [True],
                             mQueuedMessageCount := mQueuedMessageCount nb - 1\<rparr>;
                    s1 = s\<lparr>neighbors := (neighbors s)(aNeighbor := nb1)\<rparr>;
                    s2 = (if msgType message = kTypeIp6
                          then (if aError = kErrorNone
                                then s1\<lparr>mTxSuccess := mTxSuccess s1 + 1\<rparr>
                                else s1\<lparr>mTxFailure := mTxFailure s1 + 1\<rparr>)
                          else s1);
                    s3 = s2\<lparr>mSendQueue := RemoveMessageIfNoPendingTx cfg message (mSendQueue s2),
                            removeRequests := removeRequests s2 @ [message]\<rparr>
                in RescheduleCslTx inp s3))"

text \<open>
  The cases \<^verbatim>\<open>kErrorChannelAccessFailure\<close> and \<^verbatim>\<open>kErrorAbort\<close> of \<^verbatim>\<open>HandleSentFrame\<close>,
  which \<^verbatim>\<open>kErrorNoAck\<close> falls through to.
\<close>

definition HandleSentFrameRetry ::
  "CslConfig \<Rightarrow> CslInput \<Rightarrow> TxFrame \<Rightarrow> Error \<Rightarrow> nat \<Rightarrow> EnhCslSender
     \<Rightarrow> Fault + EnhCslSender" where
  "HandleSentFrameRetry cfg inp aFrame aError aNeighbor s =
     (let nb = neighbors s aNeighbor;
          nb1 = (if \<not> txIsEmpty aFrame
                 then
                   (let nb' = nb\<lparr>mIndirectDsn := txSequence aFrame\<rparr>
                    in if txSecurityEnabled aFrame \<and> txIsHeaderUpdated aFrame
                       then nb'\<lparr>mIndirectFrameCounter := txFrameCounter aFrame,
                                mIndirectKeyId := txKeyId aFrame\<rparr>
                       else nb')
                 else nb);
          s1 = s\<lparr>neighbors := (neighbors s)(aNeighbor := nb1)\<rparr>
      in case mIndirectMessage nb1 of
           None \<Rightarrow> Inl NullPointerDereference
         | Some message \<Rightarrow>
             if msgType message = kTypeIp6
                \<and> msgSubType message = kSubTypeMleChildIdRequest
                \<and> msgLinkSecurityEnabled message
             then
               (case HandleSentFrameToNeighbor cfg inp aFrame aError aNeighbor s1 of
                  Inl fault \<Rightarrow> Inl fault
                | Inr s2 \<Rightarrow>
                    RescheduleCslTx inp
                      (s2\<lparr>shorterChildIdRequests := shorterChildIdRequests s2 + 1\<rparr>))
             else RescheduleCslTx inp s1)"

text \<open>\<^verbatim>\<open>HandleSentFrame\<close> with three arguments.\<close>

definition HandleSentFrameForNeighbor ::
  "CslConfig \<Rightarrow> CslInput \<Rightarrow> TxFrame \<Rightarrow> Error \<Rightarrow> nat \<Rightarrow> EnhCslSender
     \<Rightarrow> Fault + EnhCslSender" where
  "HandleSentFrameForNeighbor cfg inp aFrame aError aNeighbor s =
     (let nb = neighbors s aNeighbor in
      case aError of
        kErrorNone \<Rightarrow>
          HandleSentFrameToNeighbor cfg inp aFrame kErrorNone aNeighbor
            (s\<lparr>neighbors := (neighbors s)(aNeighbor := nb\<lparr>mCslTxAttempts := 0\<rparr>)\<rparr>)
      | kErrorNoAck \<Rightarrow>
          if \<not> (\<not> txSecurityEnabled aFrame \<or> txIsHeaderUpdated aFrame) then Inl AssertionFailure
          else
            (let nb1 = nb\<lparr>mCslTxAttempts := mCslTxAttempts nb + 1\<rparr> in
             if GetEnhCslTxAttempts nb1
                  \<ge> GetEnhCslMaxTxAttempts (kMaxEnhCslTriggeredTxAttempts cfg) nb1
             then
               (let nb2 = nb1\<lparr>mCslSynchronized := False, mCslTxAttempts := 0\<rparr>;
                    s1 = s\<lparr>neighbors := (neighbors s)(aNeighbor := nb2)\<rparr>
                in case mIndirectMessage nb2 of
                     None \<Rightarrow> Inl NullPointerDereference
                   | Some message \<Rightarrow>
                       (let s2 = (if msgType message = kTypeIp6
                                  then s1\<lparr>mTxFailure := mTxFailure s1 + 1\<rparr>
                                  else s1)
                        in Inr (s2\<lparr>mSendQueue :=
                                       RemoveMessageIfNoPendingTx cfg message (mSendQueue s2),
                                     removeRequests := removeRequests s2 @ [message],
                                     detachRequests := detachRequests s2 + 1\<rparr>)))
             else HandleSentFrameRetry cfg inp aFrame aError aNeighbor
                    (s\<lparr>neighbors := (neighbors s)(aNeighbor := nb1)\<rparr>))
      | kErrorChannelAccessFailure \<Rightarrow> HandleSentFrameRetry cfg inp aFrame aError aNeighbor s
      | kErrorAbort \<Rightarrow> HandleSentFrameRetry cfg inp aFrame aError aNeighbor s
      | _ \<Rightarrow> Inl AssertionFailure)"

text \<open>\<^verbatim>\<open>HandleSentFrame\<close> with two arguments, the callback of the MAC.\<close>

definition HandleSentFrame ::
  "CslConfig \<Rightarrow> CslInput \<Rightarrow> TxFrame \<Rightarrow> Error \<Rightarrow> EnhCslSender \<Rightarrow> Fault + EnhCslSender" where
  "HandleSentFrame cfg inp aFrame aError s =
     (let neighbor = mCslTxNeigh s;
          s1 = s\<lparr>mCslTxMessage := None\<rparr>
      in case neighbor of
           None \<Rightarrow> Inr s1
         | Some n \<Rightarrow> HandleSentFrameForNeighbor cfg inp aFrame aError n (s1\<lparr>mCslTxNeigh := None\<rparr>))"

text \<open>
  What a neighbor holds for a retransmission, and whether it counts as synchronized:
  the part of a neighbor that rescheduling and the completion of a message leave as it
  is.
\<close>

definition retxState :: "Neighbor \<Rightarrow> u8 \<times> u32 \<times> u8 \<times> bool" where
  "retxState nb = (mIndirectDsn nb, mIndirectFrameCounter nb, mIndirectKeyId nb, mCslSynchronized nb)"

text \<open>
  A scenario: a parent synchronized with a period of 500 and a phase of 100 units of ten
  symbols, one IPv6 message queued for it and in flight, at most three attempts, and a
  secured frame with sequence number 42, frame counter 100 and key identifier 3 that
  the MAC reports on. The mesh forwarder of the scenario builds every frame anew, with
  sequence number 43, frame counter 101 and key identifier 4.
\<close>

definition scenarioConfig :: CslConfig where
  "scenarioConfig =
     \<lparr>kMaxEnhCslTriggeredTxAttempts = 3,
      kCslRequestAheadUs = 2000,
      kCslReceiverEnable = True,
      GetMacSourceAddress = (\<lambda>m. 1),
      IsLinkLocalDestination = (\<lambda>m. True),
      GetMacDestinationAddress = (\<lambda>m. 2),
      PrepareDataFrameWithNoMeshHeader =
        (\<lambda>f m a. (msgLength m,
           f\<lparr>txIsEmpty := False, txSequence := 43, txSecurityEnabled := True,
             txIsHeaderUpdated := False, txIsCslIePresent := False,
             txFrameCounter := 101, txKeyId := 4\<rparr>)),
      RemoveMessageIfNoPendingTx = (\<lambda>m q. filter (\<lambda>x. msgId x \<noteq> msgId m) q)\<rparr>"

definition scenarioMessage :: Message where
  "scenarioMessage =
     \<lparr>msgId = 1, msgType = kTypeIp6, msgSubType = kSubTypeNone, msgLinkSecurityEnabled = True,
      msgDirectTransmission = False, msgLength = 80, msgOffset = 0\<rparr>"

definition scenarioParent :: "6 word \<Rightarrow> Neighbor" where
  "scenarioParent attempts =
     \<lparr>mCslTxAttempts = attempts, mCslSynchronized = True, mCslPrevSnValid = False,
      mCslMaxTxAttempts = 0, mCslPeriod = 500, mCslPhase = 100, mCslLastHeard = 0,
      mLastRxTimestamp = 0, mCslPrevSn = 0, mIndirectDsn = 0, mIndirectKeyId = 0,
      mIndirectFrameCounter = 0, mIndirectMessage = Some scenarioMessage,
      mQueuedMessageCount = 1, mIndirectFragmentOffset = 0, nbExtAddress = 2,
      nbMessageTxStatus = []\<rparr>"

definition scenarioSender :: "6 word \<Rightarrow> EnhCslSender" where
  "scenarioSender attempts =
     \<lparr>mCslTxNeigh = Some kParent, mCslTxMessage = Some scenarioMessage,
      mCslFrameRequestAheadUs = 2000, mMessageNextOffset = 80,
      neighbors = (\<lambda>a. scenarioParent attempts),
      mSendQueue = [scenarioMessage], mTxSuccess = 0, mTxFailure = 0, cslTxRequests = [],
      removeRequests = [], detachRequests = 0, shorterChildIdRequests = 0\<rparr>"

definition scenarioSentFrame :: TxFrame where
  "scenarioSentFrame =
     \<lparr>txIsEmpty = False, txSequence = 42, txSecurityEnabled = True, txIsHeaderUpdated = True,
      txIsCslIePresent = False, txFrameCounter = 100, txKeyId = 3,
      txIsARetransmission = False, txTxDelay = 1056000, txTxDelayBaseTime = 0,
      txCsmaCaEnabled = False\<rparr>"

definition scenarioInput :: "u64 \<Rightarrow> CslInput" where
  "scenarioInput radioNow =
     \<lparr>inParentIsStateValid = True, inIsCslCentralPresent = False, inCslRadioNow = radioNow\<rparr>"

section \<open>Properties of the wake-up coordinator table\<close>

lemma FindMatching_Some:
  "FindMatching tbl a = Some i \<Longrightarrow> i < length tbl \<and> Matches (tbl ! i) a"
proof (induction tbl arbitrary: i)
  case Nil
  then show ?case by simp
next
  case (Cons c cs)
  then show ?case by (auto split: if_splits)
qed

text \<open>
  Claim C1. When the extended source address of the frame has an entry in the table,
  \<^verbatim>\<open>DetectReplay\<close> answers \<^verbatim>\<open>kErrorNone\<close> exactly when the key sequence of the frame
  is greater than the stored one, or equal to it with a greater frame counter; in every
  other case it answers \<^verbatim>\<open>kErrorSecurity\<close> and the table is the one it was given.
\<close>

theorem DetectReplay_known_source:
  assumes "FindMatching tbl (rxSrcAddr f) = Some i"
  shows "(fst (DetectReplay cap evictAge tbl f t) = kErrorNone \<longleftrightarrow>
            ReadUint32 (rxKeySource f) > mKeySequence (tbl ! i)
            \<or> (ReadUint32 (rxKeySource f) = mKeySequence (tbl ! i)
                \<and> rxFrameCounter f > mFrameCounter (tbl ! i)))
       \<and> (fst (DetectReplay cap evictAge tbl f t) \<noteq> kErrorNone \<longrightarrow>
            DetectReplay cap evictAge tbl f t = (kErrorSecurity, tbl))"
  using assms by (auto simp: DetectReplay_def Let_def)

text \<open>
  The scenario of the specification: the table of capacity 2 stores key sequence 5 and
  frame counter 10 for an address; then (5, 10), (5, 9) and (4, 9999) from that address
  are answered \<^verbatim>\<open>kErrorSecurity\<close>, (5, 11) and (6, 0) are answered \<^verbatim>\<open>kErrorNone\<close>.
\<close>

theorem DetectReplay_known_source_witness:
  "DetectReplay 2 60 [] \<lparr>rxSrcAddr = 0xA, rxKeySource = (0, 0, 0, 5), rxFrameCounter = 10\<rparr> 7000000
     = (kErrorNone, [\<lparr>mExtAddr = 0xA, mKeySequence = 5, mFrameCounter = 10, mLastUpdated = 7\<rparr>])
   \<and> FindMatching [\<lparr>mExtAddr = 0xA, mKeySequence = 5, mFrameCounter = 10, mLastUpdated = 7\<rparr>] 0xA = Some 0
   \<and> DetectReplay 2 60 [\<lparr>mExtAddr = 0xA, mKeySequence = 5, mFrameCounter = 10, mLastUpdated = 7\<rparr>]
        \<lparr>rxSrcAddr = 0xA, rxKeySource = (0, 0, 0, 5), rxFrameCounter = 10\<rparr> 8000000
      = (kErrorSecurity, [\<lparr>mExtAddr = 0xA, mKeySequence = 5, mFrameCounter = 10, mLastUpdated = 7\<rparr>])
   \<and> fst (DetectReplay 2 60 [\<lparr>mExtAddr = 0xA, mKeySequence = 5, mFrameCounter = 10, mLastUpdated = 7\<rparr>]
        \<lparr>rxSrcAddr = 0xA, rxKeySource = (0, 0, 0, 5), rxFrameCounter = 9\<rparr> 8000000) = kErrorSecurity
   \<and> fst (DetectReplay 2 60 [\<lparr>mExtAddr = 0xA, mKeySequence = 5, mFrameCounter = 10, mLastUpdated = 7\<rparr>]
        \<lparr>rxSrcAddr = 0xA, rxKeySource = (0, 0, 0, 4), rxFrameCounter = 9999\<rparr> 8000000) = kErrorSecurity
   \<and> fst (DetectReplay 2 60 [\<lparr>mExtAddr = 0xA, mKeySequence = 5, mFrameCounter = 10, mLastUpdated = 7\<rparr>]
        \<lparr>rxSrcAddr = 0xA, rxKeySource = (0, 0, 0, 5), rxFrameCounter = 11\<rparr> 8000000) = kErrorNone
   \<and> fst (DetectReplay 2 60 [\<lparr>mExtAddr = 0xA, mKeySequence = 5, mFrameCounter = 10, mLastUpdated = 7\<rparr>]
        \<lparr>rxSrcAddr = 0xA, rxKeySource = (0, 0, 0, 6), rxFrameCounter = 0\<rparr> 8000000) = kErrorNone"
proof -
  let ?tbl = "[\<lparr>mExtAddr = 0xA, mKeySequence = 5, mFrameCounter = 10, mLastUpdated = 7\<rparr>]"
  have found: "FindMatching ?tbl 0xA = Some 0"
    by (simp add: Matches_def)
  have first: "DetectReplay 2 60 [] \<lparr>rxSrcAddr = 0xA, rxKeySource = (0, 0, 0, 5), rxFrameCounter = 10\<rparr> 7000000
     = (kErrorNone, ?tbl)"
    by (simp add: DetectReplay_def Evict_def GetNowInSecs_def IsFull_def)
  have k: "(fst (DetectReplay 2 60 ?tbl \<lparr>rxSrcAddr = 0xA, rxKeySource = ks, rxFrameCounter = fc\<rparr> 8000000) = kErrorNone
             \<longleftrightarrow> 5 < ReadUint32 ks \<or> (ReadUint32 ks = 5 \<and> 10 < fc))
         \<and> (fst (DetectReplay 2 60 ?tbl \<lparr>rxSrcAddr = 0xA, rxKeySource = ks, rxFrameCounter = fc\<rparr> 8000000) \<noteq> kErrorNone
             \<longrightarrow> DetectReplay 2 60 ?tbl \<lparr>rxSrcAddr = 0xA, rxKeySource = ks, rxFrameCounter = fc\<rparr> 8000000
                   = (kErrorSecurity, ?tbl))" for ks fc
    using DetectReplay_known_source [of ?tbl "\<lparr>rxSrcAddr = 0xA, rxKeySource = ks, rxFrameCounter = fc\<rparr>" 0 2 60 8000000]
      found by simp
  have r1: "DetectReplay 2 60 ?tbl \<lparr>rxSrcAddr = 0xA, rxKeySource = (0, 0, 0, 5), rxFrameCounter = 10\<rparr> 8000000
      = (kErrorSecurity, ?tbl)"
    using k [of "(0, 0, 0, 5)" 10] by auto
  have r2: "fst (DetectReplay 2 60 ?tbl \<lparr>rxSrcAddr = 0xA, rxKeySource = (0, 0, 0, 5), rxFrameCounter = 9\<rparr> 8000000)
      = kErrorSecurity"
    using k [of "(0, 0, 0, 5)" 9] by auto
  have r3: "fst (DetectReplay 2 60 ?tbl \<lparr>rxSrcAddr = 0xA, rxKeySource = (0, 0, 0, 4), rxFrameCounter = 9999\<rparr> 8000000)
      = kErrorSecurity"
    using k [of "(0, 0, 0, 4)" 9999] by auto
  have r4: "fst (DetectReplay 2 60 ?tbl \<lparr>rxSrcAddr = 0xA, rxKeySource = (0, 0, 0, 5), rxFrameCounter = 11\<rparr> 8000000)
      = kErrorNone"
    using k [of "(0, 0, 0, 5)" 11] by simp
  have r5: "fst (DetectReplay 2 60 ?tbl \<lparr>rxSrcAddr = 0xA, rxKeySource = (0, 0, 0, 6), rxFrameCounter = 0\<rparr> 8000000)
      = kErrorNone"
    using k [of "(0, 0, 0, 6)" 0] by simp
  show ?thesis
    using found first r1 r2 r3 r4 r5 by (intro conjI)
qed

lemma FindMatching_None: "FindMatching tbl a = None \<longleftrightarrow> (\<forall>c \<in> set tbl. \<not> Matches c a)"
  by (induction tbl) auto

lemma FindMatching_update:
  "FindMatching tbl a = Some i \<Longrightarrow> Matches c a \<Longrightarrow> FindMatching (tbl[i := c]) a = Some i"
proof (induction tbl arbitrary: i)
  case Nil
  then show ?case by simp
next
  case (Cons d ds)
  then show ?case by (cases i) (auto split: if_splits)
qed

lemma FindMatching_append:
  "FindMatching tbl a = None \<Longrightarrow> Matches c a \<Longrightarrow> FindMatching (tbl @ [c]) a = Some (length tbl)"
  by (induction tbl) (auto split: if_splits)

lemma set_Remove: "set (Remove tbl i) \<subseteq> set tbl"
  unfolding Remove_def using set_take_subset [of i tbl] set_drop_subset [of "Suc i" tbl]
  by auto

lemma FindMatching_Evict:
  "FindMatching tbl a = None \<Longrightarrow> FindMatching (Evict evictAge tbl t) a = None"
  using set_Remove by (fastforce simp: FindMatching_None Evict_def Let_def split: option.splits)

lemma storedPair_step_found:
  assumes "storedPair tbl a = Some p" and "rxSrcAddr f = a"
    and "DetectReplay cap evictAge tbl f t = (e, tbl')"
  shows "(e = kErrorNone \<and> pairLess p (frameKeyPair f) \<and> storedPair tbl' a = Some (frameKeyPair f))
       \<or> (e \<noteq> kErrorNone \<and> tbl' = tbl)"
proof -
  from assms(1) obtain i where i: "FindMatching tbl a = Some i"
    and p: "p = (mKeySequence (tbl ! i), mFrameCounter (tbl ! i))"
    by (auto simp: storedPair_def)
  have len: "i < length tbl" using FindMatching_Some [OF i] by simp
  let ?c = "\<lparr>mExtAddr = a, mKeySequence = ReadUint32 (rxKeySource f),
              mFrameCounter = rxFrameCounter f, mLastUpdated = GetNowInSecs t\<rparr>"
  have upd: "FindMatching (tbl[i := ?c]) a = Some i"
    by (rule FindMatching_update [OF i]) (simp add: Matches_def)
  show ?thesis
    using assms(2,3) i p len upd
    by (auto simp: DetectReplay_def Let_def storedPair_def frameKeyPair_def split: if_splits)
qed

lemma storedPair_step_absent:
  assumes "storedPair tbl a = None" and "rxSrcAddr f = a"
    and "DetectReplay cap evictAge tbl f t = (e, tbl')"
  shows "(e = kErrorNone \<and> storedPair tbl' a = Some (frameKeyPair f))
       \<or> (e \<noteq> kErrorNone \<and> storedPair tbl' a = None)"
proof -
  from assms(1) have absent: "FindMatching tbl a = None"
    by (simp add: storedPair_def)
  let ?c = "\<lparr>mExtAddr = a, mKeySequence = ReadUint32 (rxKeySource f),
              mFrameCounter = rxFrameCounter f, mLastUpdated = GetNowInSecs t\<rparr>"
  let ?tbl = "Evict evictAge tbl t"
  have ev: "FindMatching ?tbl a = None"
    by (rule FindMatching_Evict [OF absent])
  have app: "FindMatching (?tbl @ [?c]) a = Some (length ?tbl)"
    by (rule FindMatching_append [OF ev]) (simp add: Matches_def)
  show ?thesis
    using assms(2,3) absent ev app
    by (auto simp: DetectReplay_def Let_def storedPair_def frameKeyPair_def split: if_splits)
qed

lemma DetectReplayAll_found:
  assumes "\<forall>x \<in> set fs. rxSrcAddr (fst x) = a"
    and "storedPair tbl a = Some p"
    and "DetectReplayAll cap evictAge tbl fs = (tbl', acc)"
  shows "storedPair tbl' a = Some (last (p # acc)) \<and> sorted_wrt pairLess (p # acc)
         \<and> (\<forall>q \<in> set acc. pairLess p q)"
  using assms
proof (induction fs arbitrary: tbl p tbl' acc)
  case Nil
  then show ?case by simp
next
  case (Cons x fs)
  obtain f t where x: "x = (f, t)" by (cases x)
  obtain e tbl1 where step: "DetectReplay cap evictAge tbl f t = (e, tbl1)"
    by (cases "DetectReplay cap evictAge tbl f t")
  obtain tbl2 acc2 where rest: "DetectReplayAll cap evictAge tbl1 fs = (tbl2, acc2)"
    by (cases "DetectReplayAll cap evictAge tbl1 fs")
  have src: "rxSrcAddr f = a" and srcs: "\<forall>x \<in> set fs. rxSrcAddr (fst x) = a"
    using Cons.prems(1) x by auto
  have res: "tbl' = tbl2" "acc = (if e = kErrorNone then frameKeyPair f # acc2 else acc2)"
    using Cons.prems(3) x step rest by auto
  from storedPair_step_found [OF Cons.prems(2) src step]
  show ?case
  proof
    assume ok: "e = kErrorNone \<and> pairLess p (frameKeyPair f)
                 \<and> storedPair tbl1 a = Some (frameKeyPair f)"
    from Cons.IH [OF srcs _ rest, of "frameKeyPair f"] ok
    have ih: "storedPair tbl2 a = Some (last (frameKeyPair f # acc2))"
      "sorted_wrt pairLess (frameKeyPair f # acc2)"
      "\<forall>q \<in> set acc2. pairLess (frameKeyPair f) q"
      by auto
    have tr: "\<forall>q \<in> set acc2. pairLess p q"
      using ih(3) ok by (cases p; cases "frameKeyPair f") fastforce
    show ?thesis using ok ih tr res by auto
  next
    assume no: "e \<noteq> kErrorNone \<and> tbl1 = tbl"
    from Cons.IH [OF srcs _ rest, of p] no Cons.prems(2)
    show ?thesis using res no by auto
  qed
qed

lemma sorted_wrt_last:
  "sorted_wrt P xs \<Longrightarrow> x \<in> set xs \<Longrightarrow> x = last xs \<or> P x (last xs)"
  by (induction xs) auto

lemma DetectReplayAll_any:
  assumes "\<forall>x \<in> set fs. rxSrcAddr (fst x) = a"
    and "DetectReplayAll cap evictAge tbl fs = (tbl', acc)"
    and "acc \<noteq> []"
  shows "storedPair tbl' a = Some (last acc) \<and> sorted_wrt pairLess acc"
  using assms
proof (induction fs arbitrary: tbl tbl' acc)
  case Nil
  then show ?case by simp
next
  case (Cons x fs)
  show ?case
  proof (cases "storedPair tbl a")
    case (Some p)
    from DetectReplayAll_found [OF Cons.prems(1) Some Cons.prems(2)] Cons.prems(3)
    show ?thesis by auto
  next
    case None
    obtain f t where x: "x = (f, t)" by (cases x)
    obtain e tbl1 where step: "DetectReplay cap evictAge tbl f t = (e, tbl1)"
      by (cases "DetectReplay cap evictAge tbl f t")
    obtain tbl2 acc2 where rest: "DetectReplayAll cap evictAge tbl1 fs = (tbl2, acc2)"
      by (cases "DetectReplayAll cap evictAge tbl1 fs")
    have src: "rxSrcAddr f = a" and srcs: "\<forall>x \<in> set fs. rxSrcAddr (fst x) = a"
      using Cons.prems(1) x by auto
    have res: "tbl' = tbl2" "acc = (if e = kErrorNone then frameKeyPair f # acc2 else acc2)"
      using Cons.prems(2) x step rest by auto
    from storedPair_step_absent [OF None src step]
    show ?thesis
    proof
      assume ok: "e = kErrorNone \<and> storedPair tbl1 a = Some (frameKeyPair f)"
      from DetectReplayAll_found [OF srcs _ rest, of "frameKeyPair f"] ok
      show ?thesis using res ok by auto
    next
      assume no: "e \<noteq> kErrorNone \<and> storedPair tbl1 a = None"
      then have "acc2 \<noteq> []" using res Cons.prems(3) by auto
      from Cons.IH [OF srcs rest this] show ?thesis using res no by auto
    qed
  qed
qed

text \<open>
  Claim C2, amended. After any run of frames from one extended address of which at least
  one was accepted, the pair stored for that address is the last accepted pair, which is
  the greatest accepted pair in the lexicographic order (key sequence first): its key
  sequence is the maximum of the accepted key sequences, and its frame counter is the
  maximum of the accepted frame counters that came with that key sequence.
\<close>

theorem DetectReplayAll_lexicographic_maximum:
  assumes "\<forall>x \<in> set fs. rxSrcAddr (fst x) = a"
    and "DetectReplayAll cap evictAge tbl fs = (tbl', acc)"
    and "acc \<noteq> []"
  shows "storedPair tbl' a = Some (last acc)
       \<and> last acc \<in> set acc
       \<and> (\<forall>q \<in> set acc. q = last acc \<or> pairLess q (last acc))
       \<and> fst (last acc) = Max (fst ` set acc)
       \<and> snd (last acc) = Max (snd ` {q \<in> set acc. fst q = fst (last acc)})"
proof -
  from DetectReplayAll_any [OF assms]
  have st: "storedPair tbl' a = Some (last acc)" and so: "sorted_wrt pairLess acc"
    by auto
  have mem: "last acc \<in> set acc" using assms(3) by simp
  have le: "\<forall>q \<in> set acc. q = last acc \<or> pairLess q (last acc)"
    using sorted_wrt_last [OF so] by blast
  have k: "fst (last acc) = Max (fst ` set acc)"
  proof (rule Max_eqI [symmetric])
    show "finite (fst ` set acc)" by simp
    show "fst (last acc) \<in> fst ` set acc" using mem by (rule imageI)
    fix y assume "y \<in> fst ` set acc"
    then obtain q where q: "q \<in> set acc" "y = fst q" by auto
    with le have "q = last acc \<or> pairLess q (last acc)" by blast
    then show "y \<le> fst (last acc)"
      using q(2) by (cases q; cases "last acc") auto
  qed
  have c: "snd (last acc) = Max (snd ` {q \<in> set acc. fst q = fst (last acc)})"
  proof (rule Max_eqI [symmetric])
    show "finite (snd ` {q \<in> set acc. fst q = fst (last acc)})" by simp
    show "snd (last acc) \<in> snd ` {q \<in> set acc. fst q = fst (last acc)}"
      using mem by auto
    fix y assume "y \<in> snd ` {q \<in> set acc. fst q = fst (last acc)}"
    then obtain q where q: "q \<in> set acc" "fst q = fst (last acc)" "y = snd q" by auto
    with le have "q = last acc \<or> pairLess q (last acc)" by blast
    then show "y \<le> snd (last acc)"
      using q(2,3) by (cases q; cases "last acc") auto
  qed
  show ?thesis using st mem le k c by (intro conjI)
qed

text \<open>
  Three frames from one address into an empty table: (5, 10) and (6, 0) are accepted,
  (5, 99) is not, and the table holds (6, 0).
\<close>

theorem DetectReplayAll_lexicographic_maximum_witness:
  "snd (DetectReplayAll 2 60 []
     [(\<lparr>rxSrcAddr = 0xA, rxKeySource = (0, 0, 0, 5), rxFrameCounter = 10\<rparr>, 7000000),
      (\<lparr>rxSrcAddr = 0xA, rxKeySource = (0, 0, 0, 6), rxFrameCounter = 0\<rparr>, 8000000),
      (\<lparr>rxSrcAddr = 0xA, rxKeySource = (0, 0, 0, 5), rxFrameCounter = 99\<rparr>, 9000000)])
     = [(5, 10), (6, 0)]
   \<and> storedPair (fst (DetectReplayAll 2 60 []
     [(\<lparr>rxSrcAddr = 0xA, rxKeySource = (0, 0, 0, 5), rxFrameCounter = 10\<rparr>, 7000000),
      (\<lparr>rxSrcAddr = 0xA, rxKeySource = (0, 0, 0, 6), rxFrameCounter = 0\<rparr>, 8000000),
      (\<lparr>rxSrcAddr = 0xA, rxKeySource = (0, 0, 0, 5), rxFrameCounter = 99\<rparr>, 9000000)])) 0xA
     = Some (6, 0)"
proof -
  let ?fs = "[(\<lparr>rxSrcAddr = 0xA, rxKeySource = (0, 0, 0, 5), rxFrameCounter = 10\<rparr>, 7000000),
      (\<lparr>rxSrcAddr = 0xA, rxKeySource = (0, 0, 0, 6), rxFrameCounter = 0\<rparr>, 8000000),
      (\<lparr>rxSrcAddr = 0xA, rxKeySource = (0, 0, 0, 5), rxFrameCounter = 99\<rparr>, 9000000)]"
  let ?run = "DetectReplayAll 2 60 [] ?fs"
  have acc: "snd ?run = [(5, 10), (6, 0)]"
    by (simp add: DetectReplay_def Evict_def GetNowInSecs_def IsFull_def Matches_def
        frameKeyPair_def)
  have src: "\<forall>x \<in> set ?fs. rxSrcAddr (fst x) = 0xA" by simp
  have run: "?run = (fst ?run, [(5, 10), (6, 0)])"
    using acc by (metis prod.collapse)
  have ne: "[(5, 10), (6, 0)] \<noteq> ([] :: (u32 \<times> u32) list)" by simp
  from DetectReplayAll_lexicographic_maximum [OF src run ne]
  have "storedPair (fst ?run) 0xA = Some (last [(5, 10), (6, 0)])" by blast
  then have "storedPair (fst ?run) 0xA = Some (6, 0)" by simp
  with acc show ?thesis by (intro conjI)
qed

text \<open>
  Claim C2 as stated fails: after (5, 10) and (6, 0) were accepted from one address, the
  stored pair is (6, 0), while the componentwise maximum of the accepted pairs is
  (6, 10).
\<close>

theorem componentwise_maximum_counterexample:
  "storedPair
     (fst (DetectReplayAll 2 60 []
        [(\<lparr>rxSrcAddr = 0xA, rxKeySource = (0, 0, 0, 5), rxFrameCounter = 10\<rparr>, 7000000),
         (\<lparr>rxSrcAddr = 0xA, rxKeySource = (0, 0, 0, 6), rxFrameCounter = 0\<rparr>, 8000000)])) 0xA
   \<noteq> Some
      (Max (fst ` set (snd (DetectReplayAll 2 60 []
        [(\<lparr>rxSrcAddr = 0xA, rxKeySource = (0, 0, 0, 5), rxFrameCounter = 10\<rparr>, 7000000),
         (\<lparr>rxSrcAddr = 0xA, rxKeySource = (0, 0, 0, 6), rxFrameCounter = 0\<rparr>, 8000000)]))),
       Max (snd ` set (snd (DetectReplayAll 2 60 []
        [(\<lparr>rxSrcAddr = 0xA, rxKeySource = (0, 0, 0, 5), rxFrameCounter = 10\<rparr>, 7000000),
         (\<lparr>rxSrcAddr = 0xA, rxKeySource = (0, 0, 0, 6), rxFrameCounter = 0\<rparr>, 8000000)]))))"
  by (simp add: DetectReplay_def Evict_def GetNowInSecs_def IsFull_def Matches_def
      storedPair_def frameKeyPair_def)

text \<open>
  Claim C6. The header says that \<^verbatim>\<open>DetectReplay\<close> tries to evict when the table is full;
  \<^verbatim>\<open>DetectReplay\<close> calls \<^verbatim>\<open>Evict\<close> for every frame of an unknown source. Here the table
  of capacity 2 holds one entry, last updated at second 10; a frame of another source at
  second 80, with an eviction age of 60 seconds, removes that entry although a slot is
  free.
\<close>

theorem DetectReplay_evicts_below_capacity:
  "\<not> IsFull 2 [\<lparr>mExtAddr = 0xA, mKeySequence = 5, mFrameCounter = 10, mLastUpdated = 10\<rparr>]
   \<and> DetectReplay 2 60
        [\<lparr>mExtAddr = 0xA, mKeySequence = 5, mFrameCounter = 10, mLastUpdated = 10\<rparr>]
        \<lparr>rxSrcAddr = 0xB, rxKeySource = (0, 0, 0, 1), rxFrameCounter = 1\<rparr> 80000000
      = (kErrorNone, [\<lparr>mExtAddr = 0xB, mKeySequence = 1, mFrameCounter = 1, mLastUpdated = 80\<rparr>])"
  by (simp add: DetectReplay_def Evict_def GetNowInSecs_def IsFull_def Matches_def Remove_def)

section \<open>Properties of the wake-up transmit scheduler\<close>

lemma TimeBefore_sint: "TimeBefore a b \<longleftrightarrow> sint (a - b) < 0"
proof -
  have "((a - b) AND push_bit 31 1) \<noteq> 0 \<longleftrightarrow> bit (a - b) 31"
    using and_exp_eq_0_iff_not_bit [of "a - b" 31] by simp
  also have "\<dots> \<longleftrightarrow> sint (a - b) < 0"
    using bit_last_iff [of "a - b"] by simp
  finally show ?thesis by (simp add: TimeBefore_def)
qed

lemma sint_word_of_int_u32:
  "- (2 ^ 31) \<le> x \<Longrightarrow> x < 2 ^ 31 \<Longrightarrow> sint (word_of_int x :: u32) = x"
  by (simp add: sint_sbintrunc' signed_take_bit_int_eq_self)

lemma TimeBefore_of_nat:
  assumes "m < 2 ^ 31" and "N < 2 ^ 31"
  shows "TimeBefore (t + of_nat m) (t + of_nat N) \<longleftrightarrow> m < N"
proof -
  have "(t + of_nat m) - (t + of_nat N) = (of_int (int m - int N) :: u32)"
    by simp
  moreover have "sint (of_int (int m - int N) :: u32) = int m - int N"
    using assms by (intro sint_word_of_int_u32) auto
  ultimately show ?thesis by (simp add: TimeBefore_sint)
qed

lemma ucast_u16_of_nat: "(ucast (w :: u16) :: u32) = of_nat (unat w)"
  by simp

lemma unat_u16_bound: "unat (w :: u16) < 65536"
  using unsigned_less [of w, where 'a = nat] by simp

lemma burst_span_bound: "unat (d :: u16) * 1000 + unat (i :: u16) + unat i < 2 ^ 31"
  using unat_u16_bound [of d] unat_u16_bound [of i] by simp

lemma burstFrames_less_iff:
  assumes "0 < unat i"
  shows "m < burstFrames i d \<longleftrightarrow> m * unat i < unat d * 1000 + unat i"
proof -
  have "Suc m \<le> (unat d * 1000 + unat i + (unat i - 1)) div unat i
          \<longleftrightarrow> Suc m * unat i \<le> unat d * 1000 + unat i + (unat i - 1)"
    using assms by (simp add: less_eq_div_iff_mult_less_eq)
  then show ?thesis
    using assms by (auto simp: burstFrames_def Suc_le_eq)
qed

lemma burstFrames_pos: "0 < unat i \<Longrightarrow> 0 < burstFrames i d"
  by (simp add: burstFrames_less_iff)

lemma burst_slot_bound:
  assumes "0 < unat i" and "m \<le> burstFrames i d"
  shows "m * unat i < 2 ^ 31"
proof (cases m)
  case 0
  then show ?thesis by simp
next
  case (Suc k)
  then have "k < burstFrames i d" using assms(2) by simp
  then have "k * unat i < unat d * 1000 + unat i"
    using assms(1) by (simp add: burstFrames_less_iff)
  then have "m * unat i < unat d * 1000 + unat i + unat i"
    using Suc by simp
  then show ?thesis
    using burst_span_bound [of d i] by linarith
qed

lemma burst_end_of_nat:
  "(t :: u32) + ucast (d :: u16) * 1000 + ucast (i :: u16) = t + of_nat (unat d * 1000 + unat i)"
  by simp

lemma WakeUp_burstState:
  assumes "0 < unat i" and "\<not> mSequenceOngoing s"
  shows "WakeUp tgt i d nowUs s
           = (kErrorNone, burstState tgt i d (mTxRequestAheadTimeUs s) nowUs 0)"
proof -
  let ?t = "nowUs + ucast (mTxRequestAheadTimeUs s)"
  let ?N = "unat d * 1000 + unat i"
  have N: "?N < 2 ^ 31" using burst_span_bound [of d i] by linarith
  have "TimeBefore (?t + of_nat 0) (?t + of_nat ?N) \<longleftrightarrow> 0 < ?N"
    using N by (intro TimeBefore_of_nat) simp_all
  then have "TimeBefore ?t (?t + of_nat ?N)"
    using assms(1) by simp
  then have b: "TimeBefore ?t (?t + ucast d * 1000 + ucast i)"
    by (simp only: burst_end_of_nat)
  show ?thesis
    using assms b burstFrames_pos [OF assms(1), of d]
    by (cases s) (simp add: WakeUp_def ScheduleNext_def burstState_def Let_def)
qed

lemma ScheduleNext_no_slip:
  assumes "\<not> TimeBefore (mTxTimeUs s + ucast (mIntervalUs s))
                       (nowUs + ucast (mTxRequestAheadTimeUs s))"
  shows "ScheduleNext False nowUs s =
     (if TimeBefore (mTxTimeUs s + ucast (mIntervalUs s)) (mTxEndTimeUs s)
      then s\<lparr>mTxTimeUs := mTxTimeUs s + ucast (mIntervalUs s),
             mTimer := Some (mTxTimeUs s + ucast (mIntervalUs s)
                               - ucast (mTxRequestAheadTimeUs s))\<rparr>
      else s\<lparr>mTxTimeUs := mTxTimeUs s + ucast (mIntervalUs s), mSequenceOngoing := False\<rparr>)"
  using assms by (simp add: ScheduleNext_def TimeMax_def Let_def)

lemma ScheduleNext_burstState:
  assumes "0 < unat i" and "k < burstFrames i d"
    and "\<not> TimeBefore (nowUs + ucast ahead + of_nat (Suc k * unat i)) (nowNext + ucast ahead)"
  shows "ScheduleNext False nowNext (burstState tgt i d ahead nowUs k)
           = burstState tgt i d ahead nowUs (Suc k)"
proof -
  let ?t = "nowUs + ucast ahead"
  let ?N = "unat d * 1000 + unat i"
  let ?n = "burstFrames i d"
  let ?s = "burstState tgt i d ahead nowUs k"
  let ?x = "?t + of_nat (Suc k * unat i)"
  have N: "?N < 2 ^ 31" using burst_span_bound [of d i] by linarith
  have m: "Suc k * unat i < 2 ^ 31"
    using burst_slot_bound [OF assms(1), of "Suc k" d] assms(2) by simp
  have sel: "mIntervalUs ?s = i" "mTxRequestAheadTimeUs ?s = ahead"
    by (simp_all add: burstState_def)
  have tend: "mTxEndTimeUs ?s = ?t + of_nat ?N"
    unfolding burstState_def by (simp only: burst_end_of_nat) simp
  have adv: "mTxTimeUs ?s + ucast i = ?x"
    by (simp add: burstState_def)
  have cmp: "TimeBefore ?x (?t + of_nat ?N) \<longleftrightarrow> Suc k < ?n"
    using TimeBefore_of_nat [OF m N, of ?t] burstFrames_less_iff [OF assms(1), of "Suc k" d]
    by simp
  have tm: "?x - ucast ahead = nowUs + of_nat (Suc k * unat i)"
    by simp
  have ns: "\<not> TimeBefore (mTxTimeUs ?s + ucast (mIntervalUs ?s))
                        (nowNext + ucast (mTxRequestAheadTimeUs ?s))"
    unfolding sel adv by (rule assms(3))
  have step: "ScheduleNext False nowNext ?s =
     (if Suc k < ?n then ?s\<lparr>mTxTimeUs := ?x, mTimer := Some (nowUs + of_nat (Suc k * unat i))\<rparr>
      else ?s\<lparr>mTxTimeUs := ?x, mSequenceOngoing := False\<rparr>)"
    by (simp only: ScheduleNext_no_slip [OF ns] sel adv tend cmp tm)
  show ?thesis
  proof (cases "Suc k < ?n")
    case True
    then have mn: "min (Suc k) (?n - 1) = Suc k" by simp
    have "ScheduleNext False nowNext ?s
            = ?s\<lparr>mTxTimeUs := ?x, mTimer := Some (nowUs + of_nat (Suc k * unat i))\<rparr>"
      using True by (simp only: step if_True)
    also have "\<dots> = burstState tgt i d ahead nowUs (Suc k)"
      using True mn by (simp add: burstState_def)
    finally show ?thesis .
  next
    case False
    then have mn: "min (Suc k) (?n - 1) = min k (?n - 1)" using assms(2) by simp
    have "ScheduleNext False nowNext ?s = ?s\<lparr>mTxTimeUs := ?x, mSequenceOngoing := False\<rparr>"
      using False by (simp only: step if_False)
    also have "\<dots> = burstState tgt i d ahead nowUs (Suc k)"
      using False mn by (simp add: burstState_def)
    finally show ?thesis .
  qed
qed

lemma PrepareWakeupFrame_burstState:
  assumes "0 < unat i" and "k < burstFrames i d"
    and "inGenerateResult inp = kErrorNone"
    and "\<not> TimeBefore (nowUs + ucast ahead + of_nat (Suc k * unat i))
                       (inNowUsNext inp + ucast ahead)"
  shows "fst (PrepareWakeupFrame cfg inp (burstState tgt i d ahead nowUs k)) \<noteq> None
       \<and> snd (PrepareWakeupFrame cfg inp (burstState tgt i d ahead nowUs k))
           = burstState tgt i d ahead nowUs (Suc k)"
proof -
  have on: "mSequenceOngoing (burstState tgt i d ahead nowUs k)"
    using assms(2) by (simp add: burstState_def)
  show ?thesis
    using on assms(3) ScheduleNext_burstState [OF assms(1,2,4), of tgt]
    by (simp add: PrepareWakeupFrame_def Let_def)
qed

lemma PrepareWakeupFrames_burstState:
  assumes "0 < unat i"
    and "k + length inps \<le> burstFrames i d"
    and "\<forall>inp \<in> set inps. inGenerateResult inp = kErrorNone"
    and "\<forall>j < length inps.
           \<not> TimeBefore (nowUs + ucast ahead + of_nat (Suc (k + j) * unat i))
                          (inNowUsNext (inps ! j) + ucast ahead)"
    and "PrepareWakeupFrames cfg (burstState tgt i d ahead nowUs k) inps = (frs, s')"
  shows "s' = burstState tgt i d ahead nowUs (k + length inps)
       \<and> length frs = length inps \<and> None \<notin> set frs"
  using assms(2-5)
proof (induction inps arbitrary: k frs s')
  case Nil
  then show ?case by simp
next
  case (Cons inp inps)
  have k: "k < burstFrames i d" using Cons.prems(1) by simp
  have gen: "inGenerateResult inp = kErrorNone" using Cons.prems(2) by simp
  have slip: "\<not> TimeBefore (nowUs + ucast ahead + of_nat (Suc k * unat i))
                           (inNowUsNext inp + ucast ahead)"
    using Cons.prems(3) by fastforce
  note step = PrepareWakeupFrame_burstState [OF assms(1) k gen slip, of cfg tgt]
  obtain fr where fr: "PrepareWakeupFrame cfg inp (burstState tgt i d ahead nowUs k)
      = (Some fr, burstState tgt i d ahead nowUs (Suc k))"
    using step by (cases "PrepareWakeupFrame cfg inp (burstState tgt i d ahead nowUs k)") auto
  obtain frs2 s2 where rest:
    "PrepareWakeupFrames cfg (burstState tgt i d ahead nowUs (Suc k)) inps = (frs2, s2)"
    by (cases "PrepareWakeupFrames cfg (burstState tgt i d ahead nowUs (Suc k)) inps")
  have res: "frs = Some fr # frs2" "s' = s2"
    using Cons.prems(4) fr rest by auto
  have p1: "Suc k + length inps \<le> burstFrames i d" using Cons.prems(1) by simp
  have p2: "\<forall>inp \<in> set inps. inGenerateResult inp = kErrorNone" using Cons.prems(2) by simp
  have p3: "\<forall>j < length inps.
           \<not> TimeBefore (nowUs + ucast ahead + of_nat (Suc (Suc k + j) * unat i))
                          (inNowUsNext (inps ! j) + ucast ahead)"
  proof (intro allI impI)
    fix j assume "j < length inps"
    then have "Suc j < length (inp # inps)" by simp
    with Cons.prems(3) have "\<not> TimeBefore (nowUs + ucast ahead + of_nat (Suc (k + Suc j) * unat i))
                          (inNowUsNext ((inp # inps) ! Suc j) + ucast ahead)"
      by blast
    then show "\<not> TimeBefore (nowUs + ucast ahead + of_nat (Suc (Suc k + j) * unat i))
                          (inNowUsNext (inps ! j) + ucast ahead)"
      by simp
  qed
  from Cons.IH [OF p1 p2 p3 rest] show ?case
    using res by simp
qed

lemma burstFrames_dvd:
  assumes "0 < unat i" and "unat i dvd unat d * 1000"
  shows "burstFrames i d = burstFramesSpec i d"
proof -
  from assms(2) obtain q where q: "unat d * 1000 = unat i * q" ..
  have "unat i * q + unat i + (unat i - 1) = (unat i - 1) + (q + 1) * unat i"
    by (simp add: algebra_simps)
  then have "(unat i * q + unat i + (unat i - 1)) div unat i = q + 1"
    using assms(1) by (simp only: div_mult_self1) simp
  moreover have "(unat i * q + unat i) div unat i = q + 1"
    using assms(1) by simp
  ultimately show ?thesis
    by (simp add: burstFrames_def burstFramesSpec_def q)
qed

text \<open>
  Claim C7, amended. A burst started by \<^verbatim>\<open>WakeUp\<close> with an interval greater than zero, of
  which no slot is moved forward and every frame is generated, yields
  \<open>burstFrames\<close> wake-up frames, the number of multiples of the interval below
  \<open>duration * 1000 + interval\<close> (the quotient rounded up): after \<open>k\<close> frames with
  \<open>k\<close> below that number the sequence is ongoing, the next slot is \<open>k\<close> intervals
  after the first one and the timer is set for it; after that many frames the sequence
  is no longer ongoing. The number is the quotient rounded down, as the specification
  has it, when the interval divides the duration in microseconds.
\<close>

theorem WakeUp_burst_frame_count:
  assumes "0 < unat aIntervalUs"
    and "\<not> mSequenceOngoing s"
    and "length inps \<le> burstFrames aIntervalUs aDurationMs"
    and "\<forall>inp \<in> set inps. inGenerateResult inp = kErrorNone"
    and "\<forall>j < length inps.
           \<not> TimeBefore (nowUs + ucast (mTxRequestAheadTimeUs s)
                             + of_nat (Suc j * unat aIntervalUs))
                          (inNowUsNext (inps ! j) + ucast (mTxRequestAheadTimeUs s))"
    and "PrepareWakeupFrames cfg (snd (WakeUp aTarget aIntervalUs aDurationMs nowUs s)) inps
           = (frs, s')"
  shows "fst (WakeUp aTarget aIntervalUs aDurationMs nowUs s) = kErrorNone
       \<and> length frs = length inps \<and> None \<notin> set frs
       \<and> mTxTimeUs s' = nowUs + ucast (mTxRequestAheadTimeUs s)
                          + of_nat (length inps * unat aIntervalUs)
       \<and> mSequenceOngoing s' = (length inps < burstFrames aIntervalUs aDurationMs)
       \<and> (length inps < burstFrames aIntervalUs aDurationMs \<longrightarrow>
            mTimer s' = Some (nowUs + of_nat (length inps * unat aIntervalUs)))
       \<and> (unat aIntervalUs dvd unat aDurationMs * 1000 \<longrightarrow>
            burstFrames aIntervalUs aDurationMs = burstFramesSpec aIntervalUs aDurationMs)"
proof -
  let ?ahead = "mTxRequestAheadTimeUs s"
  note w = WakeUp_burstState [OF assms(1,2), of aTarget aDurationMs nowUs]
  have run: "PrepareWakeupFrames cfg
               (burstState aTarget aIntervalUs aDurationMs ?ahead nowUs 0) inps = (frs, s')"
    using assms(6) w by simp
  have p2: "0 + length inps \<le> burstFrames aIntervalUs aDurationMs"
    using assms(3) by simp
  have p4: "\<forall>j < length inps.
           \<not> TimeBefore (nowUs + ucast ?ahead + of_nat (Suc (0 + j) * unat aIntervalUs))
                          (inNowUsNext (inps ! j) + ucast ?ahead)"
    using assms(5) by simp
  from PrepareWakeupFrames_burstState [OF assms(1) p2 assms(4) p4 run]
  have s': "s' = burstState aTarget aIntervalUs aDurationMs ?ahead nowUs (length inps)"
    and frs: "length frs = length inps" "None \<notin> set frs"
    by simp_all
  have mn: "length inps < burstFrames aIntervalUs aDurationMs \<Longrightarrow>
      min (length inps) (burstFrames aIntervalUs aDurationMs - 1) = length inps"
    by simp
  show ?thesis
    using w frs mn burstFrames_dvd [OF assms(1), of aDurationMs]
    by (simp add: s' burstState_def)
qed

text \<open>
  Claim C7 as stated fails: with an interval of 3000 microseconds and a duration of 10
  milliseconds the quotient rounded down is 4, and the scheduler hands out 5 wake-up
  frames (slots at 0, 3000, 6000, 9000 and 12000 microseconds after the first, all
  before the end at 13000); the sixth request finds the sequence over.
\<close>

theorem burst_frame_count_counterexample:
  "burstFramesSpec 3000 10 = 4
   \<and> length (filter (\<lambda>fr. fr \<noteq> None)
        (fst (PrepareWakeupFrames
           \<lparr>kOctetDuration = 32, kConnectionRetryInterval = 1, kConnectionRetryCount = 12\<rparr>
           (snd (WakeUp 7 3000 10 100000
              \<lparr>mTarget = 0, mTxTimeUs = 0, mTxEndTimeUs = 0, mTxRequestAheadTimeUs = 1500,
               mIntervalUs = 0, mTimer = None, mSequenceOngoing = False\<rparr>))
           [\<lparr>inNowUs = 100000, inNowUsNext = 100000, inRadioNow = 0, inPanId = 0,
             inExtAddress = 1, inGenerateResult = kErrorNone\<rparr>,
            \<lparr>inNowUs = 103000, inNowUsNext = 103000, inRadioNow = 0, inPanId = 0,
             inExtAddress = 1, inGenerateResult = kErrorNone\<rparr>,
            \<lparr>inNowUs = 106000, inNowUsNext = 106000, inRadioNow = 0, inPanId = 0,
             inExtAddress = 1, inGenerateResult = kErrorNone\<rparr>,
            \<lparr>inNowUs = 109000, inNowUsNext = 109000, inRadioNow = 0, inPanId = 0,
             inExtAddress = 1, inGenerateResult = kErrorNone\<rparr>,
            \<lparr>inNowUs = 112000, inNowUsNext = 112000, inRadioNow = 0, inPanId = 0,
             inExtAddress = 1, inGenerateResult = kErrorNone\<rparr>,
            \<lparr>inNowUs = 115000, inNowUsNext = 115000, inRadioNow = 0, inPanId = 0,
             inExtAddress = 1, inGenerateResult = kErrorNone\<rparr>]))) = 5"
  by (simp add: burstFramesSpec_def WakeUp_def ScheduleNext_def PrepareWakeupFrame_def
      TimeBefore_sint TimeMax_def Let_def)

text \<open>
  The scenario of the specification: interval 10000 microseconds, duration 50
  milliseconds, 1500 microseconds ahead, started at time 100000. Six frames are handed
  out, for the slots 101500, 111500, ..., 151500, and the call of \<^verbatim>\<open>ScheduleNext\<close> for
  the sixth frame (the seventh call in all) ends the sequence.
\<close>

theorem WakeUp_burst_frame_count_witness:
  "burstFrames 10000 50 = 6
   \<and> map (map_option wfTxDelay) (fst (PrepareWakeupFrames
        \<lparr>kOctetDuration = 32, kConnectionRetryInterval = 1, kConnectionRetryCount = 12\<rparr>
        (snd (WakeUp 7 10000 50 100000
           \<lparr>mTarget = 0, mTxTimeUs = 0, mTxEndTimeUs = 0, mTxRequestAheadTimeUs = 1500,
            mIntervalUs = 0, mTimer = None, mSequenceOngoing = False\<rparr>))
        [\<lparr>inNowUs = 100000, inNowUsNext = 100000, inRadioNow = 100000, inPanId = 0,
          inExtAddress = 1, inGenerateResult = kErrorNone\<rparr>,
         \<lparr>inNowUs = 110000, inNowUsNext = 110000, inRadioNow = 110000, inPanId = 0,
          inExtAddress = 1, inGenerateResult = kErrorNone\<rparr>,
         \<lparr>inNowUs = 120000, inNowUsNext = 120000, inRadioNow = 120000, inPanId = 0,
          inExtAddress = 1, inGenerateResult = kErrorNone\<rparr>,
         \<lparr>inNowUs = 130000, inNowUsNext = 130000, inRadioNow = 130000, inPanId = 0,
          inExtAddress = 1, inGenerateResult = kErrorNone\<rparr>,
         \<lparr>inNowUs = 140000, inNowUsNext = 140000, inRadioNow = 140000, inPanId = 0,
          inExtAddress = 1, inGenerateResult = kErrorNone\<rparr>,
         \<lparr>inNowUs = 150000, inNowUsNext = 150000, inRadioNow = 150000, inPanId = 0,
          inExtAddress = 1, inGenerateResult = kErrorNone\<rparr>]))
      = [Some 101500, Some 111500, Some 121500, Some 131500, Some 141500, Some 151500]
   \<and> \<not> mSequenceOngoing (snd (PrepareWakeupFrames
        \<lparr>kOctetDuration = 32, kConnectionRetryInterval = 1, kConnectionRetryCount = 12\<rparr>
        (snd (WakeUp 7 10000 50 100000
           \<lparr>mTarget = 0, mTxTimeUs = 0, mTxEndTimeUs = 0, mTxRequestAheadTimeUs = 1500,
            mIntervalUs = 0, mTimer = None, mSequenceOngoing = False\<rparr>))
        [\<lparr>inNowUs = 100000, inNowUsNext = 100000, inRadioNow = 100000, inPanId = 0,
          inExtAddress = 1, inGenerateResult = kErrorNone\<rparr>,
         \<lparr>inNowUs = 110000, inNowUsNext = 110000, inRadioNow = 110000, inPanId = 0,
          inExtAddress = 1, inGenerateResult = kErrorNone\<rparr>,
         \<lparr>inNowUs = 120000, inNowUsNext = 120000, inRadioNow = 120000, inPanId = 0,
          inExtAddress = 1, inGenerateResult = kErrorNone\<rparr>,
         \<lparr>inNowUs = 130000, inNowUsNext = 130000, inRadioNow = 130000, inPanId = 0,
          inExtAddress = 1, inGenerateResult = kErrorNone\<rparr>,
         \<lparr>inNowUs = 140000, inNowUsNext = 140000, inRadioNow = 140000, inPanId = 0,
          inExtAddress = 1, inGenerateResult = kErrorNone\<rparr>,
         \<lparr>inNowUs = 150000, inNowUsNext = 150000, inRadioNow = 150000, inPanId = 0,
          inExtAddress = 1, inGenerateResult = kErrorNone\<rparr>]))"
proof -
  let ?cfg = "\<lparr>kOctetDuration = 32, kConnectionRetryInterval = 1, kConnectionRetryCount = 12\<rparr>"
  let ?s = "\<lparr>mTarget = 0, mTxTimeUs = 0, mTxEndTimeUs = 0, mTxRequestAheadTimeUs = 1500,
            mIntervalUs = 0, mTimer = None, mSequenceOngoing = False\<rparr>"
  let ?inps = "[\<lparr>inNowUs = 100000, inNowUsNext = 100000, inRadioNow = 100000, inPanId = 0,
          inExtAddress = 1, inGenerateResult = kErrorNone\<rparr>,
         \<lparr>inNowUs = 110000, inNowUsNext = 110000, inRadioNow = 110000, inPanId = 0,
          inExtAddress = 1, inGenerateResult = kErrorNone\<rparr>,
         \<lparr>inNowUs = 120000, inNowUsNext = 120000, inRadioNow = 120000, inPanId = 0,
          inExtAddress = 1, inGenerateResult = kErrorNone\<rparr>,
         \<lparr>inNowUs = 130000, inNowUsNext = 130000, inRadioNow = 130000, inPanId = 0,
          inExtAddress = 1, inGenerateResult = kErrorNone\<rparr>,
         \<lparr>inNowUs = 140000, inNowUsNext = 140000, inRadioNow = 140000, inPanId = 0,
          inExtAddress = 1, inGenerateResult = kErrorNone\<rparr>,
         \<lparr>inNowUs = 150000, inNowUsNext = 150000, inRadioNow = 150000, inPanId = 0,
          inExtAddress = 1, inGenerateResult = kErrorNone\<rparr>]"
  let ?run = "PrepareWakeupFrames ?cfg (snd (WakeUp 7 10000 50 100000 ?s)) ?inps"
  have n: "burstFrames 10000 50 = 6"
    by (simp add: burstFrames_def)
  have h1: "0 < unat (10000 :: u16)" by simp
  have h2: "\<not> mSequenceOngoing ?s" by simp
  have h3: "length ?inps \<le> burstFrames 10000 50" by (simp add: n)
  have h4: "\<forall>inp \<in> set ?inps. inGenerateResult inp = kErrorNone" by simp
  have h5: "\<forall>j < length ?inps.
           \<not> TimeBefore (100000 + ucast (mTxRequestAheadTimeUs ?s) + of_nat (Suc j * unat (10000 :: u16)))
                          (inNowUsNext (?inps ! j) + ucast (mTxRequestAheadTimeUs ?s))"
    by (simp add: All_less_Suc TimeBefore_sint)
  have h6: "?run = (fst ?run, snd ?run)" by simp
  from WakeUp_burst_frame_count [OF h1 h2 h3 h4 h5 h6]
  have "mSequenceOngoing (snd ?run) = (length ?inps < burstFrames 10000 50)"
    by blast
  then have off: "\<not> mSequenceOngoing (snd ?run)"
    by (simp add: n)
  have delays: "map (map_option wfTxDelay) (fst ?run)
      = [Some 101500, Some 111500, Some 121500, Some 131500, Some 141500, Some 151500]"
    by (simp add: WakeUp_def ScheduleNext_def PrepareWakeupFrame_def
      TimeBefore_sint TimeMax_def Let_def)
  show ?thesis using n delays off by (intro conjI)
qed

lemma rendezvous_unat:
  fixes i :: u16 and od :: u32
  assumes "132 * unat od \<le> unat i"
  shows "unat (((ucast i - 132 * od) div 2 + ucast i) div 160 :: u32)
           = (unat i + (unat i - 132 * unat od) div 2) div 160"
proof -
  let ?e = "(ucast i - 132 * od) div 2 + ucast i :: u32"
  have i: "unat i < 65536" by (rule unat_u16_bound)
  have m: "unat (132 * od) = 132 * unat od"
    using assms i by (simp add: unat_mult_lem [THEN iffD1])
  have ui: "unat (ucast i :: u32) = unat i"
    using i by (simp add: unsigned_ucast_eq take_bit_nat_eq_self)
  have le: "132 * od \<le> ucast i"
    using assms m ui by (simp add: word_le_nat_alt)
  have s: "unat (ucast i - 132 * od :: u32) = unat i - 132 * unat od"
    using le m ui by (simp add: unat_sub)
  have d: "unat ((ucast i - 132 * od) div 2 :: u32) = (unat i - 132 * unat od) div 2"
    using s by (simp add: unat_div)
  have a: "unat ?e = (unat i - 132 * unat od) div 2 + unat i"
    using d ui i by (simp add: unat_add_lem [THEN iffD1])
  have c: "unat (160 :: u32) = 160" by simp
  have q: "unat (?e div 160) = unat ?e div unat (160 :: u32)"
    by (rule unat_div)
  show ?thesis
    unfolding q a c by (simp add: add.commute)
qed

lemma rendezvous_bound:
  fixes i :: u16
  shows "(unat i + (unat i - n) div 2) div 160 < (2 :: nat) ^ 16"
proof -
  have i: "unat i < 65536" by (rule unat_u16_bound)
  then show ?thesis by simp
qed

text \<open>
  Claim C8, amended. When the interval is at least \<open>(54 + 78) * kOctetDuration\<close>, the
  duration of a wake-up frame and a Parent Request, the rendezvous time written into a
  wake-up frame is \<open>(interval + (interval - (54 + 78) * kOctetDuration) div 2) div 160\<close>
  in exact integer arithmetic: the factor of the two frame lengths is the duration of an
  octet, not of a symbol. The value is below \<open>2 ^ 16\<close>, so the 16 bits of the
  information element hold it unchanged.
\<close>

theorem PrepareWakeupFrame_rendezvous_time:
  assumes "PrepareWakeupFrame cfg inp s = (Some frame, s')"
    and "(54 + 78) * unat (kOctetDuration cfg) \<le> unat (mIntervalUs s)"
  shows "unat (wfRendezvousTime frame)
           = (unat (mIntervalUs s)
                + (unat (mIntervalUs s) - (54 + 78) * unat (kOctetDuration cfg)) div 2)
             div 160
       \<and> unat (wfRendezvousTime frame) < 2 ^ 16"
proof -
  have v: "wfRendezvousTime frame
           = ((ucast (mIntervalUs s) - 132 * kOctetDuration cfg) div 2
                + ucast (mIntervalUs s)) div 160"
    using assms(1)
    by (auto simp: PrepareWakeupFrame_def Let_def kWakeupFrameLength_def
        kParentRequestLength_def kUsPerTenSymbols_def split: if_splits)
  have h: "132 * unat (kOctetDuration cfg) \<le> unat (mIntervalUs s)"
    using assms(2) by simp
  have f: "(54 + 78) * unat (kOctetDuration cfg) = 132 * unat (kOctetDuration cfg)"
    by simp
  have e: "unat (wfRendezvousTime frame)
           = (unat (mIntervalUs s)
                + (unat (mIntervalUs s) - 132 * unat (kOctetDuration cfg)) div 2)
             div 160"
    unfolding v by (rule rendezvous_unat [OF h])
  have b: "unat (wfRendezvousTime frame) < 2 ^ 16"
    unfolding e by (rule rendezvous_bound)
  show ?thesis
    unfolding f using e b by (intro conjI)
qed

text \<open>
  With an octet of 32 microseconds and an interval of 10000 microseconds, which is more
  than the 4224 microseconds of the two frames, the rendezvous time is 80 units of ten
  symbols.
\<close>

theorem PrepareWakeupFrame_rendezvous_time_witness:
  "map_option wfRendezvousTime (fst (PrepareWakeupFrame
      \<lparr>kOctetDuration = 32, kConnectionRetryInterval = 1, kConnectionRetryCount = 12\<rparr>
      \<lparr>inNowUs = 100000, inNowUsNext = 100000, inRadioNow = 100000, inPanId = 0,
       inExtAddress = 1, inGenerateResult = kErrorNone\<rparr>
      \<lparr>mTarget = 7, mTxTimeUs = 101500, mTxEndTimeUs = 161500, mTxRequestAheadTimeUs = 1500,
       mIntervalUs = 10000, mTimer = Some 100000, mSequenceOngoing = True\<rparr>)) = Some 80"
proof -
  let ?cfg = "\<lparr>kOctetDuration = 32, kConnectionRetryInterval = 1, kConnectionRetryCount = 12\<rparr>"
  let ?inp = "\<lparr>inNowUs = 100000, inNowUsNext = 100000, inRadioNow = 100000, inPanId = 0,
       inExtAddress = 1, inGenerateResult = kErrorNone\<rparr>"
  let ?s = "\<lparr>mTarget = 7, mTxTimeUs = 101500, mTxEndTimeUs = 161500, mTxRequestAheadTimeUs = 1500,
       mIntervalUs = 10000, mTimer = Some 100000, mSequenceOngoing = True\<rparr>"
  obtain frame s' where fr: "PrepareWakeupFrame ?cfg ?inp ?s = (Some frame, s')"
    by (simp add: PrepareWakeupFrame_def Let_def)
  have le: "(54 + 78) * unat (kOctetDuration ?cfg) \<le> unat (mIntervalUs ?s)"
    by simp
  from PrepareWakeupFrame_rendezvous_time [OF fr le]
  have "unat (wfRendezvousTime frame) = unat (80 :: u32)" by simp
  then have "wfRendezvousTime frame = 80" by (simp only: word_unat_eq_iff)
  then show ?thesis by (simp add: fr)
qed

text \<open>
  Claim C8 as stated fails. With an octet of 32 microseconds (two symbols of 16) and an
  interval of 10000 microseconds the frame carries 80, and the formula of the
  specification with the symbol duration gives 87.
\<close>

theorem rendezvous_time_counterexample:
  "map_option (\<lambda>fr. uint (wfRendezvousTime fr)) (fst (PrepareWakeupFrame
      \<lparr>kOctetDuration = 32, kConnectionRetryInterval = 1, kConnectionRetryCount = 12\<rparr>
      \<lparr>inNowUs = 100000, inNowUsNext = 100000, inRadioNow = 100000, inPanId = 0,
       inExtAddress = 1, inGenerateResult = kErrorNone\<rparr>
      \<lparr>mTarget = 7, mTxTimeUs = 101500, mTxEndTimeUs = 161500, mTxRequestAheadTimeUs = 1500,
       mIntervalUs = 10000, mTimer = Some 100000, mSequenceOngoing = True\<rparr>)) = Some 80
   \<and> rendezvousTimeSpec 16 10000 = 87"
  by (simp add: PrepareWakeupFrame_def Let_def kWakeupFrameLength_def kParentRequestLength_def
      kUsPerTenSymbols_def rendezvousTimeSpec_def)

section \<open>Properties of the enhanced CSL sender\<close>

lemma NextTxWindowLoop_result:
  assumes "0 < unat p" and "unat limit + unat p \<le> 2 ^ 64"
  shows "\<exists>t. NextTxWindowLoop nxt limit p = Some t \<and> limit \<le> t
             \<and> unat t mod unat p = unat nxt mod unat p
             \<and> (nxt < limit \<longrightarrow> unat t < unat limit + unat p)
             \<and> (\<not> nxt < limit \<longrightarrow> t = nxt)"
proof (induction "unat limit - unat nxt" arbitrary: nxt rule: less_induct)
  case less
  show ?case
  proof (cases "nxt < limit")
    case False
    then have "NextTxWindowLoop nxt limit p = Some nxt"
      by (subst NextTxWindowLoop.simps) simp
    then show ?thesis
      using False by (auto simp: not_less)
  next
    case True
    then have lt: "unat nxt < unat limit" by (simp add: word_less_nat_alt)
    have sum: "unat nxt + unat p < 2 ^ 64" using lt assms(2) by linarith
    have un: "unat (nxt + p) = unat nxt + unat p"
      using sum by (simp add: unat_add_lem [THEN iffD1])
    have dec: "unat limit - unat (nxt + p) < unat limit - unat nxt"
      using un lt assms(1) by linarith
    from less [OF dec] obtain t where t: "NextTxWindowLoop (nxt + p) limit p = Some t"
      "limit \<le> t" "unat t mod unat p = unat (nxt + p) mod unat p"
      "nxt + p < limit \<longrightarrow> unat t < unat limit + unat p"
      "\<not> nxt + p < limit \<longrightarrow> t = nxt + p"
      by blast
    have run: "NextTxWindowLoop nxt limit p = Some t"
      using True t(1) by (subst NextTxWindowLoop.simps) simp
    have md: "unat t mod unat p = unat nxt mod unat p"
      using t(3) un by simp
    have up: "unat t < unat limit + unat p"
    proof (cases "nxt + p < limit")
      case True
      with t(4) show ?thesis by blast
    next
      case False
      with t(5) have "t = nxt + p" by blast
      then show ?thesis using un lt by simp
    qed
    show ?thesis using run t(2) md up True by blast
  qed
qed

lemma unat_period_in_us:
  "unat (ucast (w :: u16) * kUsPerTenSymbols :: u32) = 160 * unat w"
proof -
  have b: "unat w < 65536" using unsigned_less [of w, where 'a = nat] by simp
  have u: "unat (ucast w :: u32) = unat w"
    using b by (simp add: unsigned_ucast_eq take_bit_nat_eq_self)
  have "unat (ucast w * 160 :: u32) = 160 * unat w"
    using b u by (simp add: unat_mult_lem [THEN iffD1])
  then show ?thesis
    by (simp add: kUsPerTenSymbols_def)
qed

lemma unat_ucast_u32_u64: "unat (ucast (w :: u32) :: u64) = unat w"
proof -
  have "unat w < 2 ^ 32" using unsigned_less [of w, where 'a = nat] by simp
  then have "unat w < 2 ^ 64" by simp
  then show ?thesis
    by (simp add: unsigned_ucast_eq take_bit_nat_eq_self)
qed

text \<open>
  Claim C3, amended. For a peer with a CSL period greater than zero, and as long as the
  64-bit times do not wrap (the radio time plus \<^verbatim>\<open>aAheadUs\<close> plus one period is at most
  \<open>2 ^ 64\<close>, and the time of the last reception plus the phase is below \<open>2 ^ 64\<close>), the
  loop ends and the transmit time \<open>t\<close> chosen is congruent to the first window modulo
  the period, is at least the radio time plus \<^verbatim>\<open>aAheadUs\<close> and less than one period
  after it, and the delay returned is \<open>t\<close> minus the radio time minus \<^verbatim>\<open>aAheadUs\<close>.
\<close>

theorem GetNextCslTransmissionDelay_slot:
  assumes per: "0 < mCslPeriod nb"
    and now: "unat radioNow + unat aAheadUs + 160 * unat (mCslPeriod nb) \<le> 2 ^ 64"
    and rx: "unat (mLastRxTimestamp nb) + 160 * unat (mCslPhase nb) < 2 ^ 64"
  shows "\<exists>t d. CslNextTxWindow nb radioNow aAheadUs = Inr t
           \<and> GetNextCslTransmissionDelay nb radioNow aAheadUs
               = Inr (d, ucast (t - mLastRxTimestamp nb))
           \<and> unat t mod (160 * unat (mCslPeriod nb))
               = (unat (mLastRxTimestamp nb) + 160 * unat (mCslPhase nb))
                   mod (160 * unat (mCslPeriod nb))
           \<and> unat radioNow + unat aAheadUs \<le> unat t
           \<and> unat t < unat radioNow + unat aAheadUs + 160 * unat (mCslPeriod nb)
           \<and> unat d = unat t - unat radioNow - unat aAheadUs"
proof -
  let ?P = "160 * unat (mCslPeriod nb)"
  let ?R = "unat radioNow"
  let ?A = "unat aAheadUs"
  let ?T0 = "unat (mLastRxTimestamp nb) + 160 * unat (mCslPhase nb)"
  let ?pw = "ucast (mCslPeriod nb) * kUsPerTenSymbols :: u32"
  let ?p = "ucast ?pw :: u64"
  let ?fw = "mLastRxTimestamp nb + ucast (ucast (mCslPhase nb) * kUsPerTenSymbols :: u32)"
  let ?limit = "radioNow + ucast aAheadUs :: u64"
  let ?n0 = "radioNow - (radioNow mod ?p) + (?fw mod ?p)"
  have P: "0 < ?P" using per by (simp add: word_less_nat_alt)
  have Pb: "?P < 2 ^ 32"
    using unsigned_less [of "mCslPeriod nb", where 'a = nat] by simp
  have pw: "unat ?pw = ?P" by (rule unat_period_in_us)
  have pw0: "?pw \<noteq> 0" using pw P by (metis less_numeral_extra(3) unat_0)
  have p: "unat ?p = ?P" using pw by (simp only: unat_ucast_u32_u64)
  have fw: "unat ?fw = ?T0"
  proof -
    have "unat (ucast (ucast (mCslPhase nb) * kUsPerTenSymbols :: u32) :: u64)
            = 160 * unat (mCslPhase nb)"
      by (simp only: unat_ucast_u32_u64 unat_period_in_us)
    then show ?thesis
      using rx by (simp add: unat_add_lem [THEN iffD1])
  qed
  have lim: "unat ?limit = ?R + ?A"
  proof -
    have "unat (ucast aAheadUs :: u64) = ?A" by (rule unat_ucast_u32_u64)
    moreover have "?R + ?A < 2 ^ 64" using now P by linarith
    ultimately show ?thesis by (simp add: unat_add_lem [THEN iffD1])
  qed
  have r: "unat (radioNow mod ?p) = ?R mod ?P"
    using p by (simp add: unat_mod)
  have rle: "radioNow mod ?p \<le> radioNow"
    by (simp add: word_le_nat_alt unat_mod)
  have base: "unat (radioNow - (radioNow mod ?p)) = ?R - ?R mod ?P"
    using r by (simp add: unat_sub [OF rle])
  have s: "unat (?fw mod ?p) = ?T0 mod ?P"
    using p fw by (simp add: unat_mod)
  have sP: "?T0 mod ?P < ?P" using P by simp
  have n0: "unat ?n0 = ?R - ?R mod ?P + ?T0 mod ?P"
  proof -
    have "?R - ?R mod ?P + ?T0 mod ?P < 2 ^ 64"
      using sP now by linarith
    then show ?thesis
      using base s by (simp add: unat_add_lem [THEN iffD1])
  qed
  have n0mod: "unat ?n0 mod ?P = ?T0 mod ?P"
  proof -
    have "?R - ?R mod ?P = (?R div ?P) * ?P"
      by (simp add: minus_mod_eq_div_mult)
    then have "unat ?n0 = ?T0 mod ?P + (?R div ?P) * ?P"
      using n0 by simp
    then show ?thesis by simp
  qed
  have n0up: "unat ?n0 < ?R + ?P"
    using n0 sP by linarith
  have h1: "0 < unat ?p" using p P by simp
  have h2: "unat ?limit + unat ?p \<le> 2 ^ 64" using lim p now by simp
  from NextTxWindowLoop_result [OF h1 h2, of ?n0] obtain t where
    t: "NextTxWindowLoop ?n0 ?limit ?p = Some t" "?limit \<le> t"
      "unat t mod unat ?p = unat ?n0 mod unat ?p"
      "?n0 < ?limit \<longrightarrow> unat t < unat ?limit + unat ?p"
      "\<not> ?n0 < ?limit \<longrightarrow> t = ?n0"
    by blast
  have win: "CslNextTxWindow nb radioNow aAheadUs = Inr t"
    using pw0 t(1) by (simp add: CslNextTxWindow_def Let_def)
  have c1: "unat t mod ?P = ?T0 mod ?P"
    using t(3) n0mod p by simp
  have c2: "?R + ?A \<le> unat t"
    using t(2) lim by (simp add: word_le_nat_alt)
  have c3: "unat t < ?R + ?A + ?P"
  proof (cases "?n0 < ?limit")
    case True
    with t(4) lim p show ?thesis by simp
  next
    case False
    with t(5) have "t = ?n0" by blast
    then show ?thesis using n0up by simp
  qed
  let ?d = "ucast (t - radioNow - ucast aAheadUs) :: u32"
  have diff: "t - radioNow - ucast aAheadUs = t - ?limit" by simp
  have ud: "unat (t - ?limit) = unat t - ?R - ?A"
    using lim by (simp add: unat_sub [OF t(2)])
  have small: "unat (t - ?limit) < 2 ^ 32"
    using ud c3 Pb by linarith
  have d: "unat ?d = unat t - ?R - ?A"
    using small ud by (simp only: diff) (simp add: unsigned_ucast_eq take_bit_nat_eq_self)
  have del: "GetNextCslTransmissionDelay nb radioNow aAheadUs
               = Inr (?d, ucast (t - mLastRxTimestamp nb))"
    using win by (simp add: GetNextCslTransmissionDelay_def)
  show ?thesis
    using win del c1 c2 c3 d by blast
qed

lemma NextTxWindowLoop_even:
  assumes "NextTxWindowLoop nxt limit p = Some t"
  shows "limit = 0xFFFFFFFFFFFFFFFF \<longrightarrow> p = 160 \<longrightarrow> \<not> even nxt"
proof (rule NextTxWindowLoop.raw_induct [where P = "\<lambda>nxt limit p t.
         limit = 0xFFFFFFFFFFFFFFFF \<longrightarrow> p = 160 \<longrightarrow> \<not> even nxt", OF _ assms])
  fix loop :: "u64 \<Rightarrow> u64 \<Rightarrow> u64 \<Rightarrow> u64 option" and n l q r :: u64
  assume ih: "\<And>n l q r. loop n l q = Some r \<Longrightarrow>
                 l = 0xFFFFFFFFFFFFFFFF \<longrightarrow> q = 160 \<longrightarrow> \<not> even n"
    and eq: "(if n < l then loop (n + q) l q else Some n) = Some r"
  show "l = 0xFFFFFFFFFFFFFFFF \<longrightarrow> q = 160 \<longrightarrow> \<not> even n"
  proof (intro impI)
    assume l: "l = 0xFFFFFFFFFFFFFFFF" and q: "q = 160"
    show "\<not> even n"
    proof (cases "n < l")
      case True
      with eq have "loop (n + q) l q = Some r" by simp
      from ih [OF this] l q have "\<not> even (n + 160)" by simp
      then show ?thesis by simp
    next
      case False
      then have "l \<le> n" by (simp add: not_less)
      then have "unat l \<le> unat n" by (simp add: word_le_nat_alt)
      moreover have "unat n < 2 ^ 64" using unsigned_less [of n, where 'a = nat] by simp
      moreover have "unat l = 2 ^ 64 - 1" using l by simp
      ultimately have "unat n = unat l" by linarith
      then have "n = 0xFFFFFFFFFFFFFFFF"
        using l by (simp add: word_unat_eq_iff)
      then show ?thesis by simp
    qed
  qed
qed

text \<open>
  The scenario of the specification: radio time 1000000, last reception at 0, period 500
  and phase 100 units of ten symbols, nothing ahead. The window chosen is 1056000 and the
  delay returned is 56000.
\<close>

theorem GetNextCslTransmissionDelay_slot_witness:
  "CslNextTxWindow
     \<lparr>mCslTxAttempts = 0, mCslSynchronized = True, mCslPrevSnValid = False,
      mCslMaxTxAttempts = 0, mCslPeriod = 500, mCslPhase = 100, mCslLastHeard = 0,
      mLastRxTimestamp = 0, mCslPrevSn = 0, mIndirectDsn = 0, mIndirectKeyId = 0,
      mIndirectFrameCounter = 0, mIndirectMessage = None, mQueuedMessageCount = 0,
      mIndirectFragmentOffset = 0, nbExtAddress = 1, nbMessageTxStatus = []\<rparr>
     1000000 0 = Inr 1056000
   \<and> GetNextCslTransmissionDelay
     \<lparr>mCslTxAttempts = 0, mCslSynchronized = True, mCslPrevSnValid = False,
      mCslMaxTxAttempts = 0, mCslPeriod = 500, mCslPhase = 100, mCslLastHeard = 0,
      mLastRxTimestamp = 0, mCslPrevSn = 0, mIndirectDsn = 0, mIndirectKeyId = 0,
      mIndirectFrameCounter = 0, mIndirectMessage = None, mQueuedMessageCount = 0,
      mIndirectFragmentOffset = 0, nbExtAddress = 1, nbMessageTxStatus = []\<rparr>
     1000000 0 = Inr (56000, 1056000)"
proof -
  let ?nb = "\<lparr>mCslTxAttempts = 0, mCslSynchronized = True, mCslPrevSnValid = False,
      mCslMaxTxAttempts = 0, mCslPeriod = 500, mCslPhase = 100, mCslLastHeard = 0,
      mLastRxTimestamp = 0, mCslPrevSn = 0, mIndirectDsn = 0, mIndirectKeyId = 0,
      mIndirectFrameCounter = 0, mIndirectMessage = None, mQueuedMessageCount = 0,
      mIndirectFragmentOffset = 0, nbExtAddress = 1, nbMessageTxStatus = []\<rparr>"
  have h1: "0 < mCslPeriod ?nb" by simp
  have h2: "unat (1000000 :: u64) + unat (0 :: u32) + 160 * unat (mCslPeriod ?nb) \<le> 2 ^ 64"
    by simp
  have h3: "unat (mLastRxTimestamp ?nb) + 160 * unat (mCslPhase ?nb) < 2 ^ 64"
    by simp
  from GetNextCslTransmissionDelay_slot [OF h1 h2 h3] obtain t d where
    w: "CslNextTxWindow ?nb 1000000 0 = Inr t"
    and g: "GetNextCslTransmissionDelay ?nb 1000000 0 = Inr (d, ucast (t - mLastRxTimestamp ?nb))"
    and m: "unat t mod (160 * unat (mCslPeriod ?nb))
              = (unat (mLastRxTimestamp ?nb) + 160 * unat (mCslPhase ?nb))
                  mod (160 * unat (mCslPeriod ?nb))"
    and lo: "unat (1000000 :: u64) + unat (0 :: u32) \<le> unat t"
    and hi: "unat t < unat (1000000 :: u64) + unat (0 :: u32) + 160 * unat (mCslPeriod ?nb)"
    and d: "unat d = unat t - unat (1000000 :: u64) - unat (0 :: u32)"
    by blast
  have "CslNextTxWindow ?nb 1000000 0 = Inr 1056000" by code_simp
  with w have t: "t = 1056000" by simp
  have "unat d = 56000" using d t by simp
  then have "d = 56000" by (simp add: word_unat_eq_iff)
  then show ?thesis using w g t by simp
qed

text \<open>
  Claim C3 as stated fails where the 64-bit times wrap. With a period of one unit and
  the radio time at \<open>2 ^ 64 - 1\<close>: with nothing ahead the loop never reaches the limit
  (every value it takes is even) and no delay is returned; with one microsecond ahead the
  limit wraps to 0, the loop is skipped, the window chosen, \<open>2 ^ 64 - 96\<close>, is before
  the radio time plus \<^verbatim>\<open>aAheadUs\<close>, and the delay returned is \<open>2 ^ 32 - 96\<close>.
\<close>

theorem csl_slot_wrap_counterexample:
  "CslNextTxWindow
     \<lparr>mCslTxAttempts = 0, mCslSynchronized = True, mCslPrevSnValid = False,
      mCslMaxTxAttempts = 0, mCslPeriod = 1, mCslPhase = 0, mCslLastHeard = 0,
      mLastRxTimestamp = 0, mCslPrevSn = 0, mIndirectDsn = 0, mIndirectKeyId = 0,
      mIndirectFrameCounter = 0, mIndirectMessage = None, mQueuedMessageCount = 0,
      mIndirectFragmentOffset = 0, nbExtAddress = 1, nbMessageTxStatus = []\<rparr>
     0xFFFFFFFFFFFFFFFF 0 = Inl LoopDoesNotTerminate
   \<and> CslNextTxWindow
     \<lparr>mCslTxAttempts = 0, mCslSynchronized = True, mCslPrevSnValid = False,
      mCslMaxTxAttempts = 0, mCslPeriod = 1, mCslPhase = 0, mCslLastHeard = 0,
      mLastRxTimestamp = 0, mCslPrevSn = 0, mIndirectDsn = 0, mIndirectKeyId = 0,
      mIndirectFrameCounter = 0, mIndirectMessage = None, mQueuedMessageCount = 0,
      mIndirectFragmentOffset = 0, nbExtAddress = 1, nbMessageTxStatus = []\<rparr>
     0xFFFFFFFFFFFFFFFF 1 = Inr 0xFFFFFFFFFFFFFFA0
   \<and> unat (0xFFFFFFFFFFFFFFA0 :: u64) < unat (0xFFFFFFFFFFFFFFFF :: u64) + unat (1 :: u32)
   \<and> GetNextCslTransmissionDelay
     \<lparr>mCslTxAttempts = 0, mCslSynchronized = True, mCslPrevSnValid = False,
      mCslMaxTxAttempts = 0, mCslPeriod = 1, mCslPhase = 0, mCslLastHeard = 0,
      mLastRxTimestamp = 0, mCslPrevSn = 0, mIndirectDsn = 0, mIndirectKeyId = 0,
      mIndirectFrameCounter = 0, mIndirectMessage = None, mQueuedMessageCount = 0,
      mIndirectFragmentOffset = 0, nbExtAddress = 1, nbMessageTxStatus = []\<rparr>
     0xFFFFFFFFFFFFFFFF 1 = Inr (4294967200, 4294967200)"
proof -
  have "NextTxWindowLoop 0xFFFFFFFFFFFFFFA0 0xFFFFFFFFFFFFFFFF 160 = None"
  proof (cases "NextTxWindowLoop 0xFFFFFFFFFFFFFFA0 0xFFFFFFFFFFFFFFFF 160")
    case None
    then show ?thesis .
  next
    case (Some t)
    from NextTxWindowLoop_even [OF this] show ?thesis by simp
  qed
  then have a: "CslNextTxWindow
     \<lparr>mCslTxAttempts = 0, mCslSynchronized = True, mCslPrevSnValid = False,
      mCslMaxTxAttempts = 0, mCslPeriod = 1, mCslPhase = 0, mCslLastHeard = 0,
      mLastRxTimestamp = 0, mCslPrevSn = 0, mIndirectDsn = 0, mIndirectKeyId = 0,
      mIndirectFrameCounter = 0, mIndirectMessage = None, mQueuedMessageCount = 0,
      mIndirectFragmentOffset = 0, nbExtAddress = 1, nbMessageTxStatus = []\<rparr>
     0xFFFFFFFFFFFFFFFF 0 = Inl LoopDoesNotTerminate"
    by (simp add: CslNextTxWindow_def kUsPerTenSymbols_def Let_def)
  have b: "CslNextTxWindow
     \<lparr>mCslTxAttempts = 0, mCslSynchronized = True, mCslPrevSnValid = False,
      mCslMaxTxAttempts = 0, mCslPeriod = 1, mCslPhase = 0, mCslLastHeard = 0,
      mLastRxTimestamp = 0, mCslPrevSn = 0, mIndirectDsn = 0, mIndirectKeyId = 0,
      mIndirectFrameCounter = 0, mIndirectMessage = None, mQueuedMessageCount = 0,
      mIndirectFragmentOffset = 0, nbExtAddress = 1, nbMessageTxStatus = []\<rparr>
     0xFFFFFFFFFFFFFFFF 1 = Inr 0xFFFFFFFFFFFFFFA0"
    by code_simp
  have c: "unat (0xFFFFFFFFFFFFFFA0 :: u64) < unat (0xFFFFFFFFFFFFFFFF :: u64) + unat (1 :: u32)"
    by simp
  have d: "GetNextCslTransmissionDelay
     \<lparr>mCslTxAttempts = 0, mCslSynchronized = True, mCslPrevSnValid = False,
      mCslMaxTxAttempts = 0, mCslPeriod = 1, mCslPhase = 0, mCslLastHeard = 0,
      mLastRxTimestamp = 0, mCslPrevSn = 0, mIndirectDsn = 0, mIndirectKeyId = 0,
      mIndirectFrameCounter = 0, mIndirectMessage = None, mQueuedMessageCount = 0,
      mIndirectFragmentOffset = 0, nbExtAddress = 1, nbMessageTxStatus = []\<rparr>
     0xFFFFFFFFFFFFFFFF 1 = Inr (4294967200, 4294967200)"
    by code_simp
  show ?thesis using a b c d by (intro conjI)
qed

lemma GetNextCslTransmissionDelay_period_zero:
  "mCslPeriod nb = 0 \<Longrightarrow> GetNextCslTransmissionDelay nb radioNow aAheadUs = Inl DivisionByZero"
  by (simp add: GetNextCslTransmissionDelay_def CslNextTxWindow_def Let_def)

text \<open>
  Claim C10. \<^verbatim>\<open>GetNextCslTransmissionDelay\<close> takes the radio time modulo the period in
  microseconds, and \<^verbatim>\<open>RescheduleCslTx\<close> calls it for the neighbor it targets as soon as
  that neighbor has a message queued, whether or not the neighbor is synchronized: with
  a period of zero the call divides by zero.
\<close>

theorem RescheduleCslTx_division_by_zero:
  assumes "GetParent inp = Some n"
    and "mQueuedMessageCount (neighbors s n) > 0"
    and "mIndirectMessage (neighbors s n) = Some m"
    and "mCslPeriod (neighbors s n) = 0"
  shows "GetNextCslTransmissionDelay (neighbors s n) (inCslRadioNow inp)
             (mCslFrameRequestAheadUs s) = Inl DivisionByZero
       \<and> RescheduleCslTx inp s = Inl DivisionByZero"
  using assms GetNextCslTransmissionDelay_period_zero [OF assms(4)]
  by (simp add: RescheduleCslTx_def Let_def)

text \<open>
  Claim C9. \<^verbatim>\<open>AddMessageForCslPeer\<close> tests the indirect message of \<^verbatim>\<open>mCslTxNeigh\<close>, not
  of the neighbor it is given, and the constructor sets \<^verbatim>\<open>mCslTxNeigh\<close> to
  \<^verbatim>\<open>nullptr\<close>: the first call after construction dereferences a null pointer, for
  every message and every neighbor.
\<close>

theorem AddMessageForCslPeer_after_construction:
  "AddMessageForCslPeer inp aMessage aNeighbor (EnhCslSenderInit cfg busSpeedHz uninit w)
     = Inl NullPointerDereference"
  by (simp add: AddMessageForCslPeer_def EnhCslSenderInit_def)

text \<open>
  A state that the sender reaches: after \<^verbatim>\<open>Update\<close> on an idle sender, whose parent is
  valid and has a period of zero, a message is added for the parent; the call divides by
  zero.
\<close>

theorem RescheduleCslTx_division_by_zero_witness:
  "Update \<lparr>inParentIsStateValid = True, inIsCslCentralPresent = False, inCslRadioNow = 1000000\<rparr>
     \<lparr>mCslTxNeigh = None, mCslTxMessage = None, mCslFrameRequestAheadUs = 2000,
      mMessageNextOffset = 0,
      neighbors = (\<lambda>a. \<lparr>mCslTxAttempts = 0, mCslSynchronized = False, mCslPrevSnValid = False,
        mCslMaxTxAttempts = 0, mCslPeriod = 0, mCslPhase = 0, mCslLastHeard = 0,
        mLastRxTimestamp = 0, mCslPrevSn = 0, mIndirectDsn = 0, mIndirectKeyId = 0,
        mIndirectFrameCounter = 0, mIndirectMessage = None, mQueuedMessageCount = 0,
        mIndirectFragmentOffset = 0, nbExtAddress = 1, nbMessageTxStatus = []\<rparr>),
      mSendQueue = [], mTxSuccess = 0, mTxFailure = 0, cslTxRequests = [],
      removeRequests = [], detachRequests = 0, shorterChildIdRequests = 0\<rparr>
   = Inr \<lparr>mCslTxNeigh = Some kParent, mCslTxMessage = None, mCslFrameRequestAheadUs = 2000,
      mMessageNextOffset = 0,
      neighbors = (\<lambda>a. \<lparr>mCslTxAttempts = 0, mCslSynchronized = False, mCslPrevSnValid = False,
        mCslMaxTxAttempts = 0, mCslPeriod = 0, mCslPhase = 0, mCslLastHeard = 0,
        mLastRxTimestamp = 0, mCslPrevSn = 0, mIndirectDsn = 0, mIndirectKeyId = 0,
        mIndirectFrameCounter = 0, mIndirectMessage = None, mQueuedMessageCount = 0,
        mIndirectFragmentOffset = 0, nbExtAddress = 1, nbMessageTxStatus = []\<rparr>),
      mSendQueue = [], mTxSuccess = 0, mTxFailure = 0, cslTxRequests = [],
      removeRequests = [], detachRequests = 0, shorterChildIdRequests = 0\<rparr>
   \<and> AddMessageForCslPeer
     \<lparr>inParentIsStateValid = True, inIsCslCentralPresent = False, inCslRadioNow = 1000000\<rparr>
     \<lparr>msgId = 1, msgType = kTypeIp6, msgSubType = kSubTypeNone, msgLinkSecurityEnabled = True,
      msgDirectTransmission = False, msgLength = 80, msgOffset = 0\<rparr>
     kParent
     \<lparr>mCslTxNeigh = Some kParent, mCslTxMessage = None, mCslFrameRequestAheadUs = 2000,
      mMessageNextOffset = 0,
      neighbors = (\<lambda>a. \<lparr>mCslTxAttempts = 0, mCslSynchronized = False, mCslPrevSnValid = False,
        mCslMaxTxAttempts = 0, mCslPeriod = 0, mCslPhase = 0, mCslLastHeard = 0,
        mLastRxTimestamp = 0, mCslPrevSn = 0, mIndirectDsn = 0, mIndirectKeyId = 0,
        mIndirectFrameCounter = 0, mIndirectMessage = None, mQueuedMessageCount = 0,
        mIndirectFragmentOffset = 0, nbExtAddress = 1, nbMessageTxStatus = []\<rparr>),
      mSendQueue = [], mTxSuccess = 0, mTxFailure = 0, cslTxRequests = [],
      removeRequests = [], detachRequests = 0, shorterChildIdRequests = 0\<rparr>
   = Inl DivisionByZero"
proof -
  let ?inp = "\<lparr>inParentIsStateValid = True, inIsCslCentralPresent = False, inCslRadioNow = 1000000\<rparr>"
  let ?msg = "\<lparr>msgId = 1, msgType = kTypeIp6, msgSubType = kSubTypeNone, msgLinkSecurityEnabled = True,
      msgDirectTransmission = False, msgLength = 80, msgOffset = 0\<rparr>"
  let ?nb = "\<lparr>mCslTxAttempts = 0, mCslSynchronized = False, mCslPrevSnValid = False,
        mCslMaxTxAttempts = 0, mCslPeriod = 0, mCslPhase = 0, mCslLastHeard = 0,
        mLastRxTimestamp = 0, mCslPrevSn = 0, mIndirectDsn = 0, mIndirectKeyId = 0,
        mIndirectFrameCounter = 0, mIndirectMessage = None, mQueuedMessageCount = 0,
        mIndirectFragmentOffset = 0, nbExtAddress = 1, nbMessageTxStatus = []\<rparr>"
  let ?s1 = "\<lparr>mCslTxNeigh = Some kParent, mCslTxMessage = None, mCslFrameRequestAheadUs = 2000,
      mMessageNextOffset = 0, neighbors = (\<lambda>a. ?nb),
      mSendQueue = [], mTxSuccess = 0, mTxFailure = 0, cslTxRequests = [],
      removeRequests = [], detachRequests = 0, shorterChildIdRequests = 0\<rparr>"
  let ?s2 = "?s1\<lparr>neighbors := (neighbors ?s1)
      (kParent := ?nb\<lparr>mIndirectMessage := Some ?msg, mIndirectFragmentOffset := 0,
                        mQueuedMessageCount := 1\<rparr>)\<rparr>"
  have h1: "GetParent ?inp = Some kParent" by (simp add: GetParent_def)
  have h2: "mQueuedMessageCount (neighbors ?s2 kParent) > 0" by simp
  have h3: "mIndirectMessage (neighbors ?s2 kParent) = Some ?msg" by simp
  have h4: "mCslPeriod (neighbors ?s2 kParent) = 0" by simp
  from RescheduleCslTx_division_by_zero [OF h1 h2 h3 h4]
  have r: "RescheduleCslTx ?inp ?s2 = Inl DivisionByZero" by blast
  have add: "AddMessageForCslPeer ?inp ?msg kParent ?s1 = RescheduleCslTx ?inp ?s2"
    by (simp add: AddMessageForCslPeer_def Let_def)
  have upd: "Update ?inp (?s1\<lparr>mCslTxNeigh := None\<rparr>) = Inr ?s1"
    by (simp add: Update_def RescheduleCslTx_def GetParent_def Let_def)
  show ?thesis
    using upd add r by simp
qed

text \<open>
  Claim C5. When \<^verbatim>\<open>kErrorNoAck\<close> is reported for a frame to the neighbor
  \<^verbatim>\<open>mCslTxNeigh\<close>, the assertion on the frame holds, the incremented attempt counter
  reaches the maximum of the neighbor and the message in flight is an IPv6 message, then
  this one call marks the neighbor as not synchronized, resets the attempt counter,
  adds one to the transmit failure counter, hands the message to
  \<^verbatim>\<open>RemoveMessageIfNoPendingTx\<close>, calls \<^verbatim>\<open>BecomeDetached\<close> once and requests no further
  transmission; the next frame request returns no frame, also if \<^verbatim>\<open>mCslTxNeigh\<close>
  points to that neighbor again.
\<close>

theorem HandleSentFrame_max_attempts:
  assumes neigh: "mCslTxNeigh s = Some n"
    and hdr: "\<not> txSecurityEnabled aFrame \<or> txIsHeaderUpdated aFrame"
    and mx: "GetEnhCslMaxTxAttempts (kMaxEnhCslTriggeredTxAttempts cfg) (neighbors s n)
               \<le> ucast (mCslTxAttempts (neighbors s n) + 1)"
    and msg: "mIndirectMessage (neighbors s n) = Some m"
    and ip6: "msgType m = kTypeIp6"
  shows "\<exists>s'. HandleSentFrame cfg inp aFrame kErrorNoAck s = Inr s'
           \<and> \<not> mCslSynchronized (neighbors s' n)
           \<and> \<not> IsEnhCslSynchronized (neighbors s' n)
           \<and> mCslTxAttempts (neighbors s' n) = 0
           \<and> mTxFailure s' = mTxFailure s + 1
           \<and> mTxSuccess s' = mTxSuccess s
           \<and> removeRequests s' = removeRequests s @ [m]
           \<and> mSendQueue s' = RemoveMessageIfNoPendingTx cfg m (mSendQueue s)
           \<and> detachRequests s' = detachRequests s + 1
           \<and> cslTxRequests s' = cslTxRequests s
           \<and> mCslTxNeigh s' = None
           \<and> HandleFrameRequest cfg inp' aTxFrame s' = Inr (None, s')
           \<and> HandleFrameRequest cfg inp' aTxFrame (s'\<lparr>mCslTxNeigh := Some n\<rparr>)
               = Inr (None, s'\<lparr>mCslTxNeigh := Some n\<rparr>)"
proof -
  let ?nb = "neighbors s n"
  let ?nb1 = "?nb\<lparr>mCslTxAttempts := mCslTxAttempts ?nb + 1\<rparr>"
  let ?nb2 = "?nb1\<lparr>mCslSynchronized := False, mCslTxAttempts := 0\<rparr>"
  let ?s' = "s\<lparr>mCslTxMessage := None, mCslTxNeigh := None,
               neighbors := (neighbors s)(n := ?nb2),
               mTxFailure := mTxFailure s + 1,
               mSendQueue := RemoveMessageIfNoPendingTx cfg m (mSendQueue s),
               removeRequests := removeRequests s @ [m],
               detachRequests := detachRequests s + 1\<rparr>"
  have c: "GetEnhCslMaxTxAttempts (kMaxEnhCslTriggeredTxAttempts cfg) ?nb1
             \<le> GetEnhCslTxAttempts ?nb1"
    using mx by (simp add: GetEnhCslMaxTxAttempts_def GetEnhCslTxAttempts_def split: if_splits)
  have inner: "HandleSentFrameForNeighbor cfg inp aFrame kErrorNoAck n
                 (s\<lparr>mCslTxMessage := None, mCslTxNeigh := None\<rparr>) = Inr ?s'"
    using hdr c msg ip6 by (simp add: HandleSentFrameForNeighbor_def Let_def)
  have run: "HandleSentFrame cfg inp aFrame kErrorNoAck s = Inr ?s'"
    using neigh inner by (simp add: HandleSentFrame_def Let_def)
  have f1: "HandleFrameRequest cfg inp' aTxFrame ?s' = Inr (None, ?s')"
    by (simp add: HandleFrameRequest_def)
  have f2: "HandleFrameRequest cfg inp' aTxFrame (?s'\<lparr>mCslTxNeigh := Some n\<rparr>)
              = Inr (None, ?s'\<lparr>mCslTxNeigh := Some n\<rparr>)"
    by (simp add: HandleFrameRequest_def IsEnhCslSynchronized_def Let_def)
  have fields: "\<not> mCslSynchronized (neighbors ?s' n)"
    "\<not> IsEnhCslSynchronized (neighbors ?s' n)"
    "mCslTxAttempts (neighbors ?s' n) = 0"
    "mTxFailure ?s' = mTxFailure s + 1"
    "mTxSuccess ?s' = mTxSuccess s"
    "removeRequests ?s' = removeRequests s @ [m]"
    "mSendQueue ?s' = RemoveMessageIfNoPendingTx cfg m (mSendQueue s)"
    "detachRequests ?s' = detachRequests s + 1"
    "cslTxRequests ?s' = cslTxRequests s"
    "mCslTxNeigh ?s' = None"
    by (simp_all add: IsEnhCslSynchronized_def)
  show ?thesis
    using run fields f1 f2 by (intro exI [of _ ?s'] conjI)
qed

text \<open>
  In the scenario with two attempts made, a third \<^verbatim>\<open>kErrorNoAck\<close> reaches the
  maximum of three.
\<close>

theorem HandleSentFrame_max_attempts_witness:
  "(case HandleSentFrame scenarioConfig (scenarioInput 1054500) scenarioSentFrame kErrorNoAck
           (scenarioSender 2) of
      Inl fault \<Rightarrow> False
    | Inr s' \<Rightarrow>
        \<not> mCslSynchronized (neighbors s' kParent)
        \<and> mCslTxAttempts (neighbors s' kParent) = 0
        \<and> mTxFailure s' = 1
        \<and> removeRequests s' = [scenarioMessage]
        \<and> detachRequests s' = 1
        \<and> HandleFrameRequest scenarioConfig (scenarioInput 1134500) scenarioSentFrame s'
            = Inr (None, s'))"
proof -
  have h1: "mCslTxNeigh (scenarioSender 2) = Some kParent"
    by (simp add: scenarioSender_def)
  have h2: "\<not> txSecurityEnabled scenarioSentFrame \<or> txIsHeaderUpdated scenarioSentFrame"
    by (simp add: scenarioSentFrame_def)
  have h3: "GetEnhCslMaxTxAttempts (kMaxEnhCslTriggeredTxAttempts scenarioConfig)
              (neighbors (scenarioSender 2) kParent)
              \<le> ucast (mCslTxAttempts (neighbors (scenarioSender 2) kParent) + 1)"
    by (simp add: scenarioSender_def scenarioParent_def scenarioConfig_def
        GetEnhCslMaxTxAttempts_def)
  have h4: "mIndirectMessage (neighbors (scenarioSender 2) kParent) = Some scenarioMessage"
    by (simp add: scenarioSender_def scenarioParent_def)
  have h5: "msgType scenarioMessage = kTypeIp6"
    by (simp add: scenarioMessage_def)
  from HandleSentFrame_max_attempts [OF h1 h2 h3 h4 h5,
      of "scenarioInput 1054500" "scenarioInput 1134500" scenarioSentFrame]
  obtain s' where r: "HandleSentFrame scenarioConfig (scenarioInput 1054500) scenarioSentFrame
                        kErrorNoAck (scenarioSender 2) = Inr s'"
    and p: "\<not> mCslSynchronized (neighbors s' kParent)"
      "mCslTxAttempts (neighbors s' kParent) = 0"
      "mTxFailure s' = mTxFailure (scenarioSender 2) + 1"
      "removeRequests s' = removeRequests (scenarioSender 2) @ [scenarioMessage]"
      "detachRequests s' = detachRequests (scenarioSender 2) + 1"
      "HandleFrameRequest scenarioConfig (scenarioInput 1134500) scenarioSentFrame s'
         = Inr (None, s')"
    by blast
  have q: "mTxFailure s' = 1" "removeRequests s' = [scenarioMessage]" "detachRequests s' = 1"
    using p(3-5) by (simp_all add: scenarioSender_def)
  show ?thesis
    using p(1,2,6) q by (simp add: r)
qed

lemma RescheduleCslTx_retxState:
  assumes "RescheduleCslTx inp s = Inr s'"
  shows "retxState (neighbors s' k) = retxState (neighbors s k)"
  using assms
  by (auto simp: RescheduleCslTx_def Let_def retxState_def
      split: option.splits if_splits sum.splits prod.splits)

lemma HandleSentFrameToNeighbor_retxState:
  assumes "HandleSentFrameToNeighbor cfg inp aFrame aError n s = Inr s'"
  shows "retxState (neighbors s' k) = retxState (neighbors s k)"
proof -
  have upd: "\<And>t t'. RescheduleCslTx inp t = Inr t' \<Longrightarrow>
               retxState (neighbors t' k) = retxState (neighbors t k)"
    by (rule RescheduleCslTx_retxState)
  show ?thesis
    using assms
    by (auto simp: HandleSentFrameToNeighbor_def Let_def
        split: option.splits if_splits dest!: upd) (auto simp: retxState_def)
qed

lemma HandleSentFrameRetry_records:
  assumes "HandleSentFrameRetry cfg inp aFrame aError n s = Inr s'"
    and "\<not> txIsEmpty aFrame"
  shows "mIndirectDsn (neighbors s' n) = txSequence aFrame
       \<and> (txSecurityEnabled aFrame \<and> txIsHeaderUpdated aFrame \<longrightarrow>
            mIndirectFrameCounter (neighbors s' n) = txFrameCounter aFrame
            \<and> mIndirectKeyId (neighbors s' n) = txKeyId aFrame)
       \<and> mCslSynchronized (neighbors s' n) = mCslSynchronized (neighbors s n)"
proof -
  let ?nb = "neighbors s n"
  let ?nb1 = "if txSecurityEnabled aFrame \<and> txIsHeaderUpdated aFrame
              then ?nb\<lparr>mIndirectDsn := txSequence aFrame,
                       mIndirectFrameCounter := txFrameCounter aFrame,
                       mIndirectKeyId := txKeyId aFrame\<rparr>
              else ?nb\<lparr>mIndirectDsn := txSequence aFrame\<rparr>"
  let ?s1 = "s\<lparr>neighbors := (neighbors s)(n := ?nb1)\<rparr>"
  have pres: "retxState (neighbors s' n) = retxState (neighbors ?s1 n)"
  proof (cases "mIndirectMessage ?nb1")
    case None
    then show ?thesis
      using assms by (auto simp: HandleSentFrameRetry_def Let_def split: if_splits)
  next
    case (Some message)
    show ?thesis
    proof (cases "msgType message = kTypeIp6 \<and> msgSubType message = kSubTypeMleChildIdRequest
                    \<and> msgLinkSecurityEnabled message")
      case False
      then have "RescheduleCslTx inp ?s1 = Inr s'"
        using assms Some by (auto simp: HandleSentFrameRetry_def Let_def split: if_splits)
      then show ?thesis by (rule RescheduleCslTx_retxState)
    next
      case True
      then obtain s2 where
        a: "HandleSentFrameToNeighbor cfg inp aFrame aError n ?s1 = Inr s2"
        and b: "RescheduleCslTx inp (s2\<lparr>shorterChildIdRequests := shorterChildIdRequests s2 + 1\<rparr>)
                  = Inr s'"
        using assms Some
        by (auto simp: HandleSentFrameRetry_def Let_def split: if_splits sum.splits)
      have "retxState (neighbors s' n) = retxState (neighbors s2 n)"
        using RescheduleCslTx_retxState [OF b, of n] by simp
      also have "\<dots> = retxState (neighbors ?s1 n)"
        by (rule HandleSentFrameToNeighbor_retxState [OF a])
      finally show ?thesis .
    qed
  qed
  then show ?thesis
    by (simp add: retxState_def split: if_splits)
qed

lemma HandleSentFrameForNeighbor_records:
  assumes "HandleSentFrameForNeighbor cfg inp aFrame aError n s = Inr s'"
    and "aError = kErrorChannelAccessFailure \<or> aError = kErrorAbort \<or> aError = kErrorNoAck"
    and "\<not> txIsEmpty aFrame"
    and "mCslSynchronized (neighbors s' n)"
  shows "mIndirectDsn (neighbors s' n) = txSequence aFrame
       \<and> (txSecurityEnabled aFrame \<and> txIsHeaderUpdated aFrame \<longrightarrow>
            mIndirectFrameCounter (neighbors s' n) = txFrameCounter aFrame
            \<and> mIndirectKeyId (neighbors s' n) = txKeyId aFrame)"
proof -
  consider (caf) "aError = kErrorChannelAccessFailure" | (abort) "aError = kErrorAbort"
    | (noack) "aError = kErrorNoAck"
    using assms(2) by blast
  then show ?thesis
  proof cases
    case caf
    then have "HandleSentFrameRetry cfg inp aFrame aError n s = Inr s'"
      using assms(1) by (simp add: HandleSentFrameForNeighbor_def)
    from HandleSentFrameRetry_records [OF this assms(3)] show ?thesis by blast
  next
    case abort
    then have "HandleSentFrameRetry cfg inp aFrame aError n s = Inr s'"
      using assms(1) by (simp add: HandleSentFrameForNeighbor_def)
    from HandleSentFrameRetry_records [OF this assms(3)] show ?thesis by blast
  next
    case noack
    let ?nb1 = "(neighbors s n)\<lparr>mCslTxAttempts := mCslTxAttempts (neighbors s n) + 1\<rparr>"
    show ?thesis
    proof (cases "GetEnhCslTxAttempts ?nb1
                    \<ge> GetEnhCslMaxTxAttempts (kMaxEnhCslTriggeredTxAttempts cfg) ?nb1")
      case True
      then have "\<not> mCslSynchronized (neighbors s' n)"
        using assms(1) noack
        by (auto simp: HandleSentFrameForNeighbor_def Let_def split: if_splits option.splits)
      with assms(4) show ?thesis by blast
    next
      case False
      then have "HandleSentFrameRetry cfg inp aFrame aError n
                   (s\<lparr>neighbors := (neighbors s)(n := ?nb1)\<rparr>) = Inr s'"
        using assms(1) noack
        by (simp add: HandleSentFrameForNeighbor_def Let_def split: if_splits)
      from HandleSentFrameRetry_records [OF this assms(3)] show ?thesis by blast
    qed
  qed
qed

lemma HandleFrameRequest_retransmission:
  assumes "HandleFrameRequest cfg inp aTxFrame s = Inr (Some frame, s')"
    and "mCslTxNeigh s = Some n"
    and "0 < GetEnhCslTxAttempts (neighbors s n)"
  shows "txIsARetransmission frame
       \<and> txSequence frame = mIndirectDsn (neighbors s n)
       \<and> (txSecurityEnabled frame \<and> \<not> txIsCslIePresent frame \<longrightarrow>
            txFrameCounter frame = mIndirectFrameCounter (neighbors s n)
            \<and> txKeyId frame = mIndirectKeyId (neighbors s n))
       \<and> (kCslReceiverEnable cfg \<and> txIsCslIePresent frame \<longrightarrow>
            (\<exists>message. mIndirectMessage (neighbors s n) = Some message
               \<and> txFrameCounter frame
                   = txFrameCounter (snd (PrepareDataFrame cfg aTxFrame (neighbors s n) message))
               \<and> txKeyId frame
                   = txKeyId (snd (PrepareDataFrame cfg aTxFrame (neighbors s n) message))))"
  using assms
  by (auto simp: HandleFrameRequest_def PrepareFrameForNeighbor_def Let_def
      split: option.splits if_splits sum.splits prod.splits MessageType.splits)

text \<open>
  Claim C4. A frame that \<^verbatim>\<open>HandleFrameRequest\<close> returns for a neighbor whose attempt
  counter is greater than zero is marked as a retransmission and has the sequence number
  kept in the neighbor; when it is secured and carries no CSL IE it has the frame counter
  and key identifier kept in the neighbor; when it carries a CSL IE (in a build with the
  CSL receiver) it keeps the frame counter and key identifier that the mesh forwarder
  gave it. What the neighbor keeps is written by \<^verbatim>\<open>HandleSentFrame\<close>: after a completion
  with \<^verbatim>\<open>kErrorChannelAccessFailure\<close>, \<^verbatim>\<open>kErrorAbort\<close> or \<^verbatim>\<open>kErrorNoAck\<close> for a frame
  that is not empty, which leaves the neighbor synchronized, the neighbor holds the
  sequence number of that frame and, if the frame was secured with its header updated,
  its frame counter and key identifier.
\<close>

theorem retransmission_reuses_recorded_values:
  "(HandleFrameRequest cfg inp aTxFrame s = Inr (Some frame, s')
      \<and> mCslTxNeigh s = Some n
      \<and> 0 < GetEnhCslTxAttempts (neighbors s n) \<longrightarrow>
    txIsARetransmission frame
    \<and> txSequence frame = mIndirectDsn (neighbors s n)
    \<and> (txSecurityEnabled frame \<and> \<not> txIsCslIePresent frame \<longrightarrow>
         txFrameCounter frame = mIndirectFrameCounter (neighbors s n)
         \<and> txKeyId frame = mIndirectKeyId (neighbors s n))
    \<and> (kCslReceiverEnable cfg \<and> txIsCslIePresent frame \<longrightarrow>
         (\<exists>message. mIndirectMessage (neighbors s n) = Some message
            \<and> txFrameCounter frame
                = txFrameCounter (snd (PrepareDataFrame cfg aTxFrame (neighbors s n) message))
            \<and> txKeyId frame
                = txKeyId (snd (PrepareDataFrame cfg aTxFrame (neighbors s n) message)))))
   \<and> (HandleSentFrame cfg inp aFrame aError s = Inr s1
      \<and> mCslTxNeigh s = Some n
      \<and> (aError = kErrorChannelAccessFailure \<or> aError = kErrorAbort \<or> aError = kErrorNoAck)
      \<and> \<not> txIsEmpty aFrame
      \<and> mCslSynchronized (neighbors s1 n) \<longrightarrow>
    mIndirectDsn (neighbors s1 n) = txSequence aFrame
    \<and> (txSecurityEnabled aFrame \<and> txIsHeaderUpdated aFrame \<longrightarrow>
         mIndirectFrameCounter (neighbors s1 n) = txFrameCounter aFrame
         \<and> mIndirectKeyId (neighbors s1 n) = txKeyId aFrame))"
proof (intro conjI impI)
  assume a: "HandleFrameRequest cfg inp aTxFrame s = Inr (Some frame, s')
      \<and> mCslTxNeigh s = Some n \<and> 0 < GetEnhCslTxAttempts (neighbors s n)"
  then have r: "HandleFrameRequest cfg inp aTxFrame s = Inr (Some frame, s')"
    and n: "mCslTxNeigh s = Some n" and t: "0 < GetEnhCslTxAttempts (neighbors s n)"
    by simp_all
  note A = HandleFrameRequest_retransmission [OF r n t]
  show "txIsARetransmission frame" using A by blast
  show "txSequence frame = mIndirectDsn (neighbors s n)" using A by blast
  {
    assume "txSecurityEnabled frame \<and> \<not> txIsCslIePresent frame"
    then show "txFrameCounter frame = mIndirectFrameCounter (neighbors s n)"
      and "txKeyId frame = mIndirectKeyId (neighbors s n)"
      using A by blast+
  }
  {
    assume "kCslReceiverEnable cfg \<and> txIsCslIePresent frame"
    then show "\<exists>message. mIndirectMessage (neighbors s n) = Some message
            \<and> txFrameCounter frame
                = txFrameCounter (snd (PrepareDataFrame cfg aTxFrame (neighbors s n) message))
            \<and> txKeyId frame
                = txKeyId (snd (PrepareDataFrame cfg aTxFrame (neighbors s n) message))"
      using A by blast
  }
next
  assume b: "HandleSentFrame cfg inp aFrame aError s = Inr s1
      \<and> mCslTxNeigh s = Some n
      \<and> (aError = kErrorChannelAccessFailure \<or> aError = kErrorAbort \<or> aError = kErrorNoAck)
      \<and> \<not> txIsEmpty aFrame
      \<and> mCslSynchronized (neighbors s1 n)"
  then have "HandleSentFrameForNeighbor cfg inp aFrame aError n
               (s\<lparr>mCslTxMessage := None, mCslTxNeigh := None\<rparr>) = Inr s1"
    by (auto simp: HandleSentFrame_def Let_def)
  from HandleSentFrameForNeighbor_records [OF this] b
  have B: "mIndirectDsn (neighbors s1 n) = txSequence aFrame
       \<and> (txSecurityEnabled aFrame \<and> txIsHeaderUpdated aFrame \<longrightarrow>
            mIndirectFrameCounter (neighbors s1 n) = txFrameCounter aFrame
            \<and> mIndirectKeyId (neighbors s1 n) = txKeyId aFrame)"
    by blast
  show "mIndirectDsn (neighbors s1 n) = txSequence aFrame" using B by blast
  {
    assume "txSecurityEnabled aFrame \<and> txIsHeaderUpdated aFrame"
    then show "mIndirectFrameCounter (neighbors s1 n) = txFrameCounter aFrame"
      and "mIndirectKeyId (neighbors s1 n) = txKeyId aFrame"
      using B by blast+
  }
qed

text \<open>
  In the scenario the frame with sequence number 42, frame counter 100 and key
  identifier 3 is not acknowledged; the next frame prepared is a retransmission with
  these three values.
\<close>

theorem retransmission_reuses_recorded_values_witness:
  "(case HandleSentFrame scenarioConfig (scenarioInput 1054500) scenarioSentFrame kErrorNoAck
           (scenarioSender 0) of
      Inl fault \<Rightarrow> False
    | Inr s1 \<Rightarrow>
        (case HandleFrameRequest scenarioConfig (scenarioInput 1134500) scenarioSentFrame s1 of
           Inl fault \<Rightarrow> False
         | Inr (None, s2) \<Rightarrow> False
         | Inr (Some frame, s2) \<Rightarrow>
             txIsARetransmission frame \<and> txSequence frame = 42
             \<and> txFrameCounter frame = 100 \<and> txKeyId frame = 3))"
proof -
  let ?X = "HandleSentFrame scenarioConfig (scenarioInput 1054500) scenarioSentFrame kErrorNoAck
              (scenarioSender 0)"
  let ?s1 = "projr ?X"
  let ?Y = "HandleFrameRequest scenarioConfig (scenarioInput 1134500) scenarioSentFrame ?s1"
  let ?f = "the (fst (projr ?Y))"
  let ?s2 = "snd (projr ?Y)"
  have "\<not> isl ?X" by code_simp
  then have x: "?X = Inr ?s1" by simp
  have "\<not> isl ?Y" and "fst (projr ?Y) \<noteq> None" by code_simp+
  then have y: "?Y = Inr (Some ?f, ?s2)"
    by (metis option.collapse prod.collapse sum.collapse(2))
  have n0: "mCslTxNeigh (scenarioSender 0) = Some kParent"
    by (simp add: scenarioSender_def)
  have n1: "mCslTxNeigh ?s1 = Some kParent" by code_simp
  have att: "0 < GetEnhCslTxAttempts (neighbors ?s1 kParent)" by code_simp
  have sync: "mCslSynchronized (neighbors ?s1 kParent)" by code_simp
  have sec: "txSecurityEnabled ?f \<and> \<not> txIsCslIePresent ?f" by code_simp
  have sent: "txSecurityEnabled scenarioSentFrame \<and> txIsHeaderUpdated scenarioSentFrame"
    "\<not> txIsEmpty scenarioSentFrame" "txSequence scenarioSentFrame = 42"
    "txFrameCounter scenarioSentFrame = 100" "txKeyId scenarioSentFrame = 3"
    by (simp_all add: scenarioSentFrame_def)
  have A: "txIsARetransmission ?f
      \<and> txSequence ?f = mIndirectDsn (neighbors ?s1 kParent)
      \<and> txFrameCounter ?f = mIndirectFrameCounter (neighbors ?s1 kParent)
      \<and> txKeyId ?f = mIndirectKeyId (neighbors ?s1 kParent)"
    using retransmission_reuses_recorded_values [of scenarioConfig "scenarioInput 1134500"
        scenarioSentFrame ?s1 ?f ?s2 kParent] y n1 att sec
    by blast
  have B: "mIndirectDsn (neighbors ?s1 kParent) = 42
      \<and> mIndirectFrameCounter (neighbors ?s1 kParent) = 100
      \<and> mIndirectKeyId (neighbors ?s1 kParent) = 3"
    using retransmission_reuses_recorded_values [of scenarioConfig "scenarioInput 1054500"
        scenarioSentFrame "scenarioSender 0" _ _ kParent scenarioSentFrame kErrorNoAck ?s1]
      x n0 sync sent
    by metis
  have "txIsARetransmission ?f \<and> txSequence ?f = 42
          \<and> txFrameCounter ?f = 100 \<and> txKeyId ?f = 3"
    using A B by simp
  then show ?thesis
    by (subst x, simp only: sum.case, subst y, simp only: sum.case prod.case option.case)
qed

end
